theory Spec2Isabelle
  imports Main "HOL-Library.Sublist" "HOL-Library.AList"
begin

section \<open>Python strings\<close>

text \<open>
  A Python \<open>str\<close> is modelled as a \<open>string\<close>, each \<open>char\<close> standing for one code point
  below 256. The substring test \<open>sub in s\<close> is \<^const>\<open>sublist\<close> (a contiguous run).
  \<open>py_isspace\<close> lists the code points below 256 for which \<open>str.isspace\<close> holds; they are
  the ones \<open>str.strip()\<close> removes and the regular expression class \<open>\s\<close> matches.
\<close>

definition py_isspace :: "char \<Rightarrow> bool" where
  "py_isspace c = (of_char c \<in> {9, 10, 11, 12, 13, 28, 29, 30, 31, 32, 133, 160 :: nat})"

definition py_lstrip :: "string \<Rightarrow> string" where
  "py_lstrip s = dropWhile py_isspace s"

definition py_rstrip :: "string \<Rightarrow> string" where
  "py_rstrip s = rev (dropWhile py_isspace (rev s))"

definition py_strip :: "string \<Rightarrow> string" where
  "py_strip s = py_rstrip (py_lstrip s)"

text \<open>
  \<open>s.replace(old, new)\<close>: one scan from the left; at a position where \<open>old\<close> starts, \<open>new\<close>
  is emitted and the scan resumes behind that occurrence, so the text just emitted is never
  looked at again. With an empty \<open>old\<close> Python puts \<open>new\<close> before every character and at
  the end.
\<close>

fun replace_scan :: "string \<Rightarrow> string \<Rightarrow> string \<Rightarrow> string" where
  "replace_scan old new [] = []"
| "replace_scan old new (c # cs) =
     (if prefix old (c # cs) then new @ replace_scan old new (drop (length old - 1) cs)
      else c # replace_scan old new cs)"

definition py_replace :: "string \<Rightarrow> string \<Rightarrow> string \<Rightarrow> string" where
  "py_replace s old new =
     (if old = [] then new @ concat (map (\<lambda>c. c # new) s) else replace_scan old new s)"

text \<open>
  \<open>s.split(sep)\<close> for a non-empty separator: the fields between successive occurrences of
  \<open>sep\<close>, found from the left; \<open>acc\<close> holds the current field, reversed. (Python raises
  \<open>ValueError\<close> for an empty separator; the program only splits at the two non-empty
  heading markers.)
\<close>

fun split_scan :: "string \<Rightarrow> string \<Rightarrow> string \<Rightarrow> string list" where
  "split_scan sep acc [] = [rev acc]"
| "split_scan sep acc (c # cs) =
     (if prefix sep (c # cs) then rev acc # split_scan sep [] (drop (length sep - 1) cs)
      else split_scan sep (c # acc) cs)"

definition py_split :: "string \<Rightarrow> string \<Rightarrow> string list" where
  "py_split s sep = split_scan sep [] s"

text \<open>
  The first occurrence of a separator: the text before it and the text after it. It serves
  to say what "the text between two markers" is, and to describe the first match of the
  fenced-block pattern in \<open>get_llm_parameters\<close>.
\<close>

fun split_at_first :: "'a list \<Rightarrow> 'a list \<Rightarrow> ('a list \<times> 'a list) option" where
  "split_at_first sep [] = (if sep = [] then Some ([], []) else None)"
| "split_at_first sep (c # cs) =
     (if prefix sep (c # cs) then Some ([], drop (length sep) (c # cs))
      else (case split_at_first sep cs of None \<Rightarrow> None | Some (a, r) \<Rightarrow> Some (c # a, r)))"

text \<open>
  The specification's "interior text between the markers": what lies between the first
  occurrence of \<open>m1\<close> and the first occurrence of \<open>m2\<close> after it.
\<close>

definition text_between :: "'a list \<Rightarrow> 'a list \<Rightarrow> 'a list \<Rightarrow> 'a list option" where
  "text_between m1 m2 s =
     (case split_at_first m1 s of None \<Rightarrow> None
      | Some (_, rest) \<Rightarrow> map_option fst (split_at_first m2 rest))"

text \<open>\<open>xs[i]\<close> for \<open>i \<ge> 0\<close>; \<open>None\<close> is Python's \<open>IndexError\<close>.\<close>

definition py_index :: "'a list \<Rightarrow> nat \<Rightarrow> 'a option" where
  "py_index xs i = (if i < length xs then Some (xs ! i) else None)"

text \<open>\<open>s.lower()\<close> on the letters \<open>A\<close> to \<open>Z\<close>; every other code point below 128 is its own
  lower case.\<close>

definition py_lower_char :: "char \<Rightarrow> char" where
  "py_lower_char c =
     (let n = (of_char c :: nat) in if 65 \<le> n \<and> n \<le> 90 then char_of (n + 32) else c)"

definition py_lower :: "string \<Rightarrow> string" where
  "py_lower s = map py_lower_char s"

section \<open>Python values, dictionaries and errors\<close>

text \<open>
  A path is the list of its components. \<open>py_error\<close> holds the exceptions the modelled code
  can raise; \<open>log_event\<close> the calls to \<open>logger.info\<close>, \<open>logger.warning\<close> and
  \<open>logger.error\<close> (of a message that holds a run-time value - an exception's own
  text, a path, the keys of a dictionary - only the fixed text before the first one is
  kept).

  \<open>pyval\<close> is a value as \<open>json.loads\<close> builds it. A \<open>dict\<close> is an association list in
  insertion order; \<open>d[k] = v\<close> is \<^const>\<open>AList.update\<close>, which overwrites the entry of a
  key already present and appends a new one otherwise. \<open>PFloat m e\<close> is the float written
  as the decimal \<open>m\<close> times ten to the \<open>e\<close>: floats are only stored and copied here, never
  computed with.
\<close>

type_synonym path = "string list"

datatype py_error = KeyError string | TypeError | OSError path

datatype log_event = LogInfo string | LogWarning string | LogError string

datatype pyval =
    PNone
  | PBool bool
  | PInt int
  | PFloat int int
  | PStr string
  | PList "pyval list"
  | PDict "(string \<times> pyval) list"

text \<open>
  \<open>key in x\<close>, \<open>x[key] = v\<close> and \<open>x[key]\<close> for a string \<open>key\<close>. On a list \<open>in\<close> compares
  elements, on a string it is the substring test; a number, a boolean and \<open>None\<close> raise
  \<open>TypeError\<close>. Only a dictionary accepts a string subscript.
\<close>

fun py_contains :: "pyval \<Rightarrow> string \<Rightarrow> py_error + bool" where
  "py_contains (PDict items) key = Inr (key \<in> set (map fst items))"
| "py_contains (PList xs) key = Inr (PStr key \<in> set xs)"
| "py_contains (PStr s) key = Inr (sublist key s)"
| "py_contains _ key = Inl TypeError"

fun py_setitem :: "pyval \<Rightarrow> string \<Rightarrow> pyval \<Rightarrow> py_error + pyval" where
  "py_setitem (PDict items) key v = Inr (PDict (AList.update key v items))"
| "py_setitem _ key v = Inl TypeError"

fun py_getitem :: "pyval \<Rightarrow> string \<Rightarrow> py_error + pyval" where
  "py_getitem (PDict items) key =
     (case map_of items key of None \<Rightarrow> Inl (KeyError key) | Some v \<Rightarrow> Inr v)"
| "py_getitem _ key = Inl TypeError"

section \<open>The system prompt (\<open>get_system_prompt\<close>)\<close>

definition DEFAULT_SYSTEM_PROMPT :: string where
  \<open>DEFAULT_SYSTEM_PROMPT = ''You are a helpful assistant specialized in {{chatbot_description}}. \<newline>You provide accurate, concise information based on your knowledge and the documents in your knowledge base.\<newline>If you don't know something or if the information isn't in your knowledge base, admit it clearly.\<newline>Always maintain a helpful and professional tone.''\<close>

definition DESCRIPTION_TOKEN :: string where
  "DESCRIPTION_TOKEN = ''{{chatbot_description}}''"

definition SENTINEL :: string where
  "SENTINEL = ''Delete everything above this line''"

definition DEFAULT_PROMPT_MARKER :: string where
  "DEFAULT_PROMPT_MARKER = ''## Default Prompt''"

definition TIPS_MARKER :: string where
  "TIPS_MARKER = ''## Tips''"

definition default_prompt_for :: "string \<Rightarrow> string" where
  "default_prompt_for chatbot_description =
     py_replace DEFAULT_SYSTEM_PROMPT DESCRIPTION_TOKEN chatbot_description"

text \<open>
  The part of \<open>get_system_prompt\<close> that decides the prompt. \<open>template_exists\<close> is whether the
  template \<open>system_prompt.md\<close> exists; \<open>edited\<close> is what reading the hand-off file gives
  after the user has pressed Enter, \<open>None\<close> when opening or reading it raises (the
  \<open>except Exception\<close> branch). An index out of range would raise inside the \<open>try\<close> and land
  in the same branch.
\<close>

definition extract_default_section :: "string \<Rightarrow> string option" where
  "extract_default_section content =
     (case py_index (py_split content DEFAULT_PROMPT_MARKER) 1 of
        None \<Rightarrow> None
      | Some after_marker \<Rightarrow>
          (case py_index (py_split after_marker TIPS_MARKER) 0 of
             None \<Rightarrow> None
           | Some default_section \<Rightarrow> Some (py_strip default_section)))"

definition get_system_prompt :: "bool \<Rightarrow> string option \<Rightarrow> string \<Rightarrow> string" where
  "get_system_prompt template_exists edited chatbot_description =
     (if \<not> template_exists then default_prompt_for chatbot_description
      else case edited of
        None \<Rightarrow> default_prompt_for chatbot_description
      | Some raw \<Rightarrow>
          (let content = py_strip raw in
           if sublist SENTINEL content then
             (if sublist DEFAULT_PROMPT_MARKER content \<and> sublist TIPS_MARKER content then
                (case extract_default_section content of
                   None \<Rightarrow> default_prompt_for chatbot_description
                 | Some default_section \<Rightarrow>
                     py_replace default_section DESCRIPTION_TOKEN chatbot_description)
              else default_prompt_for chatbot_description)
           else content))"

section \<open>The generation parameters (\<open>get_llm_parameters\<close>)\<close>

definition DEFAULT_LLM_PARAMS :: "(string \<times> pyval) list" where
  "DEFAULT_LLM_PARAMS =
     [(''temperature'', PFloat 7 (-1)),
      (''top_k'', PInt 40),
      (''top_p'', PFloat 9 (-1)),
      (''max_tokens'', PInt 1024),
      (''presence_penalty'', PFloat 0 0),
      (''frequency_penalty'', PFloat 0 0)]"

text \<open>
  \<open>re.search(r'```json\s*(.*?)\s*```', content, re.DOTALL)\<close>, group 1. The leftmost match
  starts at the first \<open>```json\<close>; the greedy \<open>\s*\<close> skips all whitespace after it; the lazy
  group then ends as early as the rest can match whitespace followed by \<open>```\<close>, which is
  at the first \<open>```\<close> from there, with the whitespace before it left out of the group.
  Without a closing \<open>```\<close> after the first \<open>```json\<close> there is no match at all.
\<close>

definition search_json_block :: "string \<Rightarrow> string option" where
  "search_json_block content =
     (case split_at_first ''```json'' content of
        None \<Rightarrow> None
      | Some (_, rest) \<Rightarrow>
          (case split_at_first ''```'' (dropWhile py_isspace rest) of
             None \<Rightarrow> None
           | Some (body, _) \<Rightarrow> Some (py_rstrip body)))"

text \<open>
  \<open>json_loads\<close> stands for the library's \<open>json.loads\<close>: \<open>None\<close> when it raises
  \<open>JSONDecodeError\<close>. The fenced block is parsed when there is one, the whole text
  otherwise.
\<close>

definition parse_parameter_text :: "(string \<Rightarrow> pyval option) \<Rightarrow> string \<Rightarrow> pyval option" where
  "parse_parameter_text json_loads content =
     (case search_json_block content of
        Some json_str \<Rightarrow> json_loads json_str
      | None \<Rightarrow> json_loads content)"

text \<open>The loop over \<open>DEFAULT_LLM_PARAMS.items()\<close> that fills in the missing keys.\<close>

fun fill_defaults :: "(string \<times> pyval) list \<Rightarrow> pyval \<Rightarrow> py_error + pyval" where
  "fill_defaults [] custom_params = Inr custom_params"
| "fill_defaults ((key, default_value) # rest) custom_params =
     (case py_contains custom_params key of
        Inl e \<Rightarrow> Inl e
      | Inr True \<Rightarrow> fill_defaults rest custom_params
      | Inr False \<Rightarrow>
          (case py_setitem custom_params key default_value of
             Inl e \<Rightarrow> Inl e
           | Inr custom_params' \<Rightarrow> fill_defaults rest custom_params'))"

text \<open>
  \<open>get_llm_parameters\<close> after the hand-off: \<open>template_exists\<close> is whether the template
  \<open>llm_parameters.json\<close> exists, \<open>edited\<close> the text read from the edited copy (\<open>None\<close> when
  reading raises). Every exception raised inside the \<open>try\<close> is caught by
  \<open>except Exception\<close>, logged, and answered with the defaults.
\<close>

definition get_llm_parameters ::
  "(string \<Rightarrow> pyval option) \<Rightarrow> bool \<Rightarrow> string option \<Rightarrow> pyval \<times> log_event list" where
  "get_llm_parameters json_loads template_exists edited =
     (if \<not> template_exists then
        (PDict DEFAULT_LLM_PARAMS,
         [LogWarning ''LLM parameters template not found, using default''])
      else case edited of
        None \<Rightarrow> (PDict DEFAULT_LLM_PARAMS, [LogError ''Error reading LLM parameters file''])
      | Some content \<Rightarrow>
          (case parse_parameter_text json_loads content of
             None \<Rightarrow> (PDict DEFAULT_LLM_PARAMS, [LogError ''Error reading LLM parameters file''])
           | Some custom_params \<Rightarrow>
               (case fill_defaults DEFAULT_LLM_PARAMS custom_params of
                  Inl e \<Rightarrow>
                    (PDict DEFAULT_LLM_PARAMS, [LogError ''Error reading LLM parameters file''])
                | Inr merged \<Rightarrow> (merged, []))))"

section \<open>Updating a generated configuration (\<open>update_parameters\<close>)\<close>

text \<open>
  \<open>for key, value in param_updates.items(): config['parameters'][key] = value\<close>. The inner
  dictionary is changed in place; with dictionaries as values, the changed \<open>parameters\<close> is
  stored back under its key. A configuration read by \<open>json.load\<close> shares no object
  between two fields, so nothing else can see the change.
\<close>

fun update_parameters :: "pyval \<Rightarrow> (string \<times> pyval) list \<Rightarrow> py_error + pyval" where
  "update_parameters config [] = Inr config"
| "update_parameters config ((key, v) # rest) =
     (case py_getitem config ''parameters'' of
        Inl e \<Rightarrow> Inl e
      | Inr parameters \<Rightarrow>
          (case py_setitem parameters key v of
             Inl e \<Rightarrow> Inl e
           | Inr parameters' \<Rightarrow>
               (case py_setitem config ''parameters'' parameters' of
                  Inl e \<Rightarrow> Inl e
                | Inr config' \<Rightarrow> update_parameters config' rest)))"

section \<open>The target directory (\<open>create_directory_structure\<close>)\<close>

text \<open>
  The file system is a map from paths to nodes. An outcome is a normal return,
  \<open>sys.exit(code)\<close>, or an exception. File-system errors (\<open>FileExistsError\<close>,
  \<open>NotADirectoryError\<close>) are \<open>OSError\<close>s.
\<close>

datatype fnode = FDir | FFile string

type_synonym filesystem = "path \<rightharpoonup> fnode"

datatype 'a outcome = Returned 'a | SysExit int | Raised py_error

text \<open>\<open>shutil.rmtree(dir)\<close>: removes the directory and everything under it; on anything but a
  directory it raises.\<close>

definition rmtree :: "filesystem \<Rightarrow> path \<Rightarrow> py_error + filesystem" where
  "rmtree fs dir =
     (case fs dir of
        Some FDir \<Rightarrow> Inr (\<lambda>p. if prefix dir p then None else fs p)
      | _ \<Rightarrow> Inl (OSError dir))"

text \<open>
  \<open>path.mkdir(parents=True, exist_ok=True)\<close>: the path and its missing ancestors become
  directories; a file in the way raises. \<open>mkdir_all\<close> is the loop over the directories.
\<close>

fun mkdir_each :: "filesystem \<Rightarrow> path list \<Rightarrow> py_error + filesystem" where
  "mkdir_each fs [] = Inr fs"
| "mkdir_each fs (p # ps) =
     (case fs p of
        Some (FFile content) \<Rightarrow> Inl (OSError p)
      | _ \<Rightarrow> mkdir_each (fs(p \<mapsto> FDir)) ps)"

definition mkdir_parents :: "filesystem \<Rightarrow> path \<Rightarrow> py_error + filesystem" where
  "mkdir_parents fs p = mkdir_each fs (tl (prefixes p))"

fun mkdir_all :: "filesystem \<Rightarrow> path list \<Rightarrow> py_error + filesystem" where
  "mkdir_all fs [] = Inr fs"
| "mkdir_all fs (p # ps) =
     (case mkdir_parents fs p of Inl e \<Rightarrow> Inl e | Inr fs' \<Rightarrow> mkdir_all fs' ps)"

definition directories :: "path list" where
  "directories =
     [[],
      [''src''],
      [''src'', ''static'', ''css''],
      [''src'', ''static'', ''js''],
      [''src'', ''templates''],
      [''src'', ''models''],
      [''src'', ''knowledge_base''],
      [''src'', ''utils''],
      [''knowledge'', ''documents''],
      [''docs'']]"

text \<open>
  \<open>answer\<close> is what the user types at "Directory already exists. Overwrite? [y/N]"; it is
  only asked for when the directory exists.
\<close>

definition create_directory_structure ::
  "path \<Rightarrow> string \<Rightarrow> string \<Rightarrow> filesystem \<Rightarrow> filesystem \<times> path outcome" where
  "create_directory_structure base_path chatbot_name answer fs =
     (let chatbot_dir = base_path @ [chatbot_name] in
      if fs chatbot_dir \<noteq> None \<and> py_lower answer \<noteq> ''y'' then (fs, SysExit 0)
      else
        (case (if fs chatbot_dir \<noteq> None then rmtree fs chatbot_dir else Inr fs) of
           Inl e \<Rightarrow> (fs, Raised e)
         | Inr fs1 \<Rightarrow>
             (case mkdir_all fs1 (map (\<lambda>directory. chatbot_dir @ directory) directories) of
                Inl e \<Rightarrow> (fs1, Raised e)
              | Inr fs2 \<Rightarrow> (fs2, Returned chatbot_dir))))"

text \<open>
  The \<open>try\<close> block of \<open>main\<close>: \<open>create_directory_structure\<close> first, then the steps that write
  into the directory (\<open>remaining_steps\<close>, a parameter). \<open>SystemExit\<close> is not an \<open>Exception\<close>,
  so \<open>except Exception\<close> lets it through and the process ends; any other exception is
  logged and reported.
\<close>

datatype run_result = Generated | Exited int | Failed py_error

definition generate ::
  "path \<Rightarrow> string \<Rightarrow> string \<Rightarrow> (path \<Rightarrow> filesystem \<Rightarrow> filesystem \<times> py_error option)
     \<Rightarrow> filesystem \<Rightarrow> filesystem \<times> run_result" where
  "generate cwd chatbot_name answer remaining_steps fs =
     (case create_directory_structure cwd chatbot_name answer fs of
        (fs1, SysExit code) \<Rightarrow> (fs1, Exited code)
      | (fs1, Raised e) \<Rightarrow> (fs1, Failed e)
      | (fs1, Returned chatbot_dir) \<Rightarrow>
          (case remaining_steps chatbot_dir fs1 of
             (fs2, Some e) \<Rightarrow> (fs2, Failed e)
           | (fs2, None) \<Rightarrow> (fs2, Generated)))"

section \<open>Rendering the template tree (\<open>copy_and_update_template_files\<close>)\<close>

text \<open>
  What \<open>template_dir.glob("**/*")\<close> enumerates, in its order: each entry with its path
  relative to the template directory. \<open>SrcDir\<close> is an entry for which \<open>is_file()\<close> is false;
  \<open>SrcFile content\<close> a file that reads as \<open>content\<close>; \<open>SrcUnreadable\<close> a file for which
  \<open>open\<close> or \<open>read\<close> raises (it vanished, permission is denied, or it does not decode).
  The enumeration is a parameter: the source tree is taken not to change while the loop
  runs.
\<close>

datatype src_node = SrcDir | SrcFile string | SrcUnreadable

text \<open>
  The placeholder of a key, \<open>f"{{{{{{ {key} }}}}}}"\<close>: three opening braces, a space, the key,
  a space, three closing braces.
\<close>

definition placeholder :: "string \<Rightarrow> string" where
  "placeholder key = ''{{{ '' @ key @ '' }}}''"

text \<open>
  The inner loop \<open>for key, value in config.items(): content = content.replace(...)\<close>. The
  configuration is the dictionary's items in order; \<open>py_str\<close> stands for \<open>str(value)\<close>.
\<close>

fun replace_placeholders :: "('v \<Rightarrow> string) \<Rightarrow> (string \<times> 'v) list \<Rightarrow> string \<Rightarrow> string" where
  "replace_placeholders py_str [] content = content"
| "replace_placeholders py_str ((key, v) # rest) content =
     replace_placeholders py_str rest (py_replace content (placeholder key) (py_str v))"

text \<open>
  \<open>with open(target_path, 'w') as f: f.write(content)\<close>: the file is created, or its text
  replaced; \<open>open\<close> raises when the path is a directory or when its parent is not one. The
  empty path, the root, always is a directory. \<open>is_file\<close> is \<open>Path.is_file\<close> on the model.
\<close>

definition write_file :: "filesystem \<Rightarrow> path \<Rightarrow> string \<Rightarrow> py_error + filesystem" where
  "write_file fs p content =
     (if p = [] \<or> fs p = Some FDir \<or> (butlast p \<noteq> [] \<and> fs (butlast p) \<noteq> Some FDir)
      then Inl (OSError p)
      else Inr (fs(p \<mapsto> FFile content)))"

definition is_file :: "filesystem \<Rightarrow> path \<Rightarrow> bool" where
  "is_file fs p = (case fs p of Some (FFile content) \<Rightarrow> True | _ \<Rightarrow> False)"

text \<open>
  The outer loop, on the file system that holds the target directory. For each enumerated
  file, in the order of the code: the parent of the target path is made with
  \<open>mkdir(parents=True, exist_ok=True)\<close>, then the source is read, the placeholders are
  replaced, and the result is written. The function has no \<open>try\<close>: the first exception of
  \<open>mkdir\<close>, of the read or of the write leaves the loop, with everything done before it in
  place - when the read raises, the parent directory has already been made. An exception of
  the read is written \<open>OSError\<close> with the relative path, whatever its class.

  \<open>copy_and_update_template_files\<close> returns the file system, the log and the exception, if
  any. The function logs one \<open>info\<close> line at its start and has no other call to the logger.
\<close>

fun render_files ::
  "('v \<Rightarrow> string) \<Rightarrow> (path \<times> src_node) list \<Rightarrow> path \<Rightarrow> (string \<times> 'v) list \<Rightarrow> filesystem
     \<Rightarrow> filesystem \<times> py_error option" where
  "render_files py_str [] target_dir config fs = (fs, None)"
| "render_files py_str ((relative_path, SrcDir) # rest) target_dir config fs =
     render_files py_str rest target_dir config fs"
| "render_files py_str ((relative_path, SrcUnreadable) # rest) target_dir config fs =
     (case mkdir_parents fs (butlast (target_dir @ relative_path)) of
        Inl e \<Rightarrow> (fs, Some e)
      | Inr fs1 \<Rightarrow> (fs1, Some (OSError relative_path)))"
| "render_files py_str ((relative_path, SrcFile content) # rest) target_dir config fs =
     (case mkdir_parents fs (butlast (target_dir @ relative_path)) of
        Inl e \<Rightarrow> (fs, Some e)
      | Inr fs1 \<Rightarrow>
          (case write_file fs1 (target_dir @ relative_path)
                  (replace_placeholders py_str config content) of
             Inl e \<Rightarrow> (fs1, Some e)
           | Inr fs2 \<Rightarrow> render_files py_str rest target_dir config fs2))"

definition copy_and_update_template_files ::
  "('v \<Rightarrow> string) \<Rightarrow> (path \<times> src_node) list \<Rightarrow> path \<Rightarrow> (string \<times> 'v) list \<Rightarrow> filesystem
     \<Rightarrow> filesystem \<times> log_event list \<times> py_error option" where
  "copy_and_update_template_files py_str tree target_dir config fs =
     (case render_files py_str tree target_dir config fs of
        (fs', raised) \<Rightarrow> (fs', [LogInfo ''Copying and updating template files''], raised))"

text \<open>
  For stating what the replacements do to a text that holds tokens, a text is cut into
  literal pieces and tokens. A literal piece is token-safe when \<open>{{{\<close> does not occur in it and
  it does not end with \<open>{\<close>: then no token starts inside it or across its end. A token is
  well-formed when its key has no brace, so that no token is part of another.

  \<open>shape v\<close> is a cut of the text of the value \<open>v\<close>. A configuration is well-formed when its
  keys are distinct (it is a dictionary) and brace-free and \<open>shape\<close> cuts the text of each
  of its values into well-formed pieces.
\<close>

datatype segment = Literal string | Token string

definition brace_free :: "string \<Rightarrow> bool" where
  "brace_free s = (CHR ''{'' \<notin> set s \<and> CHR ''}'' \<notin> set s)"

definition token_safe :: "string \<Rightarrow> bool" where
  "token_safe s = (\<not> sublist ''{{{'' s \<and> (s = [] \<or> last s \<noteq> CHR ''{''))"

fun segment_text :: "segment \<Rightarrow> string" where
  "segment_text (Literal s) = s"
| "segment_text (Token key) = placeholder key"

definition template_text :: "segment list \<Rightarrow> string" where
  "template_text segs = concat (map segment_text segs)"

fun well_formed_segment :: "segment \<Rightarrow> bool" where
  "well_formed_segment (Literal s) = token_safe s"
| "well_formed_segment (Token key) = brace_free key"

definition well_formed_config ::
  "('v \<Rightarrow> string) \<Rightarrow> ('v \<Rightarrow> segment list) \<Rightarrow> (string \<times> 'v) list \<Rightarrow> bool" where
  "well_formed_config py_str shape config =
     (distinct (map fst config)
      \<and> list_all (\<lambda>(key, v). brace_free key \<and> py_str v = template_text (shape v)
                              \<and> list_all well_formed_segment (shape v)) config)"

text \<open>
  The replacements, on pieces. \<open>expand\<close> goes through the keys in configuration order and
  replaces every token of the key by the pieces of its value - in what the earlier keys
  have produced, so a token that came with an earlier value is replaced like one of the
  template. \<open>insert_value\<close> is the literal insertion: the token of a configured key becomes
  the text of its value, as one literal piece.

  \<open>no_later_token\<close>: no value holds the token of a key that comes later in the
  configuration. \<open>no_own_or_earlier_token shape []\<close>: no value holds the token of its own key
  or of a key that comes earlier.
\<close>

fun subst_segment :: "string \<Rightarrow> segment list \<Rightarrow> segment \<Rightarrow> segment list" where
  "subst_segment key vs (Literal s) = [Literal s]"
| "subst_segment key vs (Token k) = (if k = key then vs else [Token k])"

fun expand :: "('v \<Rightarrow> segment list) \<Rightarrow> (string \<times> 'v) list \<Rightarrow> segment list \<Rightarrow> segment list" where
  "expand shape [] segs = segs"
| "expand shape ((key, v) # rest) segs =
     expand shape rest (concat (map (subst_segment key (shape v)) segs))"



fun no_own_or_earlier_token ::
  "('v \<Rightarrow> segment list) \<Rightarrow> string list \<Rightarrow> (string \<times> 'v) list \<Rightarrow> bool" where
  "no_own_or_earlier_token shape earlier [] = True"
| "no_own_or_earlier_token shape earlier ((key, v) # rest) =
     (list_all (\<lambda>k. Token k \<notin> set (shape v)) (key # earlier)
      \<and> no_own_or_earlier_token shape (key # earlier) rest)"

text \<open>The relative paths of the files of the source tree.\<close>

definition source_files :: "(path \<times> src_node) list \<Rightarrow> path set" where
  "source_files tree = {relative_path. \<exists>content. (relative_path, SrcFile content) \<in> set tree}"

section \<open>The stylesheet (\<open>generate_custom_css\<close>)\<close>

text \<open>
  The two dictionaries as records of the keys the function reads. A theme has no \<open>name\<close>
  key in the registry, so \<open>theme_colors.get('name', 'Custom')\<close> is modelled with an optional
  field.
\<close>

record theme_colors =
  theme_name :: "string option"
  primary :: string
  bg :: string
  "text" :: string

record font_style =
  name :: string
  font_family :: string
  style :: string

definition theme_display_name :: "theme_colors \<Rightarrow> string" where
  "theme_display_name theme_colors =
     (case theme_name theme_colors of None \<Rightarrow> ''Custom'' | Some n \<Rightarrow> n)"

definition THEME_COLORS :: "(string \<times> theme_colors) list" where
  "THEME_COLORS =
     [(''sky'', \<lparr>theme_name = None, primary = ''#0EA5E9'', bg = ''#F0F9FF'', text = ''#0C4A6E''\<rparr>),
      (''forest'', \<lparr>theme_name = None, primary = ''#22C55E'', bg = ''#F0FDF4'', text = ''#14532D''\<rparr>),
      (''lavender'', \<lparr>theme_name = None, primary = ''#8B5CF6'', bg = ''#F5F3FF'', text = ''#4C1D95''\<rparr>),
      (''sunset'', \<lparr>theme_name = None, primary = ''#F59E0B'', bg = ''#FFFBEB'', text = ''#78350F''\<rparr>),
      (''ocean'', \<lparr>theme_name = None, primary = ''#0891B2'', bg = ''#ECFEFF'', text = ''#155E75''\<rparr>)]"

definition FONT_STYLES :: "font_style list" where
  "FONT_STYLES =
     [\<lparr>name = ''Modern'', font_family = ''Inter, system-ui, sans-serif'', style = ''clean''\<rparr>,
      \<lparr>name = ''Classic'', font_family = ''Georgia, serif'', style = ''traditional''\<rparr>,
      \<lparr>name = ''Minimal'', font_family = ''Roboto, Arial, sans-serif'', style = ''minimal''\<rparr>,
      \<lparr>name = ''Technical'', font_family = ''JetBrains Mono, monospace'', style = ''code''\<rparr>,
      \<lparr>name = ''Friendly'', font_family = ''Quicksand, sans-serif'', style = ''rounded''\<rparr>]"

text \<open>The f-string assigned to \<open>custom_css\<close>; \<open>target_name\<close> is \<open>target_dir.name\<close>.\<close>

definition custom_css_template ::
  "string \<Rightarrow> theme_colors \<Rightarrow> font_style \<Rightarrow> string \<Rightarrow> string" where
  \<open>custom_css_template target_name theme_colors font_style base_css =
     ''/* \<newline> * Custom CSS for '' @
     target_name @
     '' chatbot\<newline> * Theme: '' @
     theme_display_name theme_colors @
     ''\<newline> * Font: '' @
     name font_style @
     ''\<newline> */\<newline>\<newline>:root {\<newline>    --primary-color: '' @
     primary theme_colors @
     '';\<newline>    --background-color: '' @
     bg theme_colors @
     '';\<newline>    --text-color: '' @
     text theme_colors @
     '';\<newline>    --font-family: '' @
     font_family font_style @
     '';\<newline>}\<newline>\<newline>body {\<newline>    font-family: var(--font-family);\<newline>'' @
     ''    background-color: var(--background-color);\<newline>'' @
     ''    color: var(--text-color);\<newline>}\<newline>\<newline>.header {\<newline>'' @
     ''    background-color: var(--primary-color);\<newline>}\<newline>\<newline>'' @
     ''.primary-button, button[type="submit"] {\<newline>'' @
     ''    background-color: var(--primary-color);\<newline>}\<newline>\<newline>'' @
     ''.bot-message {\<newline>'' @
     ''    border-left: 3px solid var(--primary-color);\<newline>}\<newline>\<newline>'' @
     ''.bot-info {\<newline>    margin-top: 10px;\<newline>    color: #586e75;\<newline>'' @
     ''    font-style: italic;\<newline>}\<newline>\<newline>.customization-tip {\<newline>'' @
     ''    background-color: rgba(var(--primary-color-rgb, 14, 165, 233), 0.1);\<newline>'' @
     ''    border-radius: 6px;\<newline>    padding: 12px 16px;\<newline>'' @
     ''    margin: 20px 0;\<newline>    font-size: 0.9rem;\<newline>}\<newline>\<newline>'' @
     ''.customization-tip code {\<newline>'' @
     ''    background-color: rgba(0,0,0,0.05);\<newline>'' @
     ''    padding: 2px 4px;\<newline>    border-radius: 3px;\<newline>}\<newline>\<newline>'' @
     ''/* Base styles */\<newline>'' @
     base_css @
     ''\<newline>\<newline>/* Custom '' @
     style font_style @
     '' style adjustments */\<newline>''\<close>

text \<open>
  The two generated parts of that text: what stands before the base stylesheet, and the
  comment line that follows it.
\<close>

definition css_header :: "string \<Rightarrow> theme_colors \<Rightarrow> font_style \<Rightarrow> string" where
  \<open>css_header target_name theme_colors font_style =
     ''/* \<newline> * Custom CSS for '' @
     target_name @
     '' chatbot\<newline> * Theme: '' @
     theme_display_name theme_colors @
     ''\<newline> * Font: '' @
     name font_style @
     ''\<newline> */\<newline>\<newline>:root {\<newline>    --primary-color: '' @
     primary theme_colors @
     '';\<newline>    --background-color: '' @
     bg theme_colors @
     '';\<newline>    --text-color: '' @
     text theme_colors @
     '';\<newline>    --font-family: '' @
     font_family font_style @
     '';\<newline>}\<newline>\<newline>body {\<newline>    font-family: var(--font-family);\<newline>'' @
     ''    background-color: var(--background-color);\<newline>'' @
     ''    color: var(--text-color);\<newline>}\<newline>\<newline>.header {\<newline>'' @
     ''    background-color: var(--primary-color);\<newline>}\<newline>\<newline>'' @
     ''.primary-button, button[type="submit"] {\<newline>'' @
     ''    background-color: var(--primary-color);\<newline>}\<newline>\<newline>'' @
     ''.bot-message {\<newline>'' @
     ''    border-left: 3px solid var(--primary-color);\<newline>}\<newline>\<newline>'' @
     ''.bot-info {\<newline>    margin-top: 10px;\<newline>    color: #586e75;\<newline>'' @
     ''    font-style: italic;\<newline>}\<newline>\<newline>.customization-tip {\<newline>'' @
     ''    background-color: rgba(var(--primary-color-rgb, 14, 165, 233), 0.1);\<newline>'' @
     ''    border-radius: 6px;\<newline>    padding: 12px 16px;\<newline>'' @
     ''    margin: 20px 0;\<newline>    font-size: 0.9rem;\<newline>}\<newline>\<newline>'' @
     ''.customization-tip code {\<newline>'' @
     ''    background-color: rgba(0,0,0,0.05);\<newline>'' @
     ''    padding: 2px 4px;\<newline>    border-radius: 3px;\<newline>}\<newline>\<newline>'' @
     ''/* Base styles */\<newline>''\<close>

definition css_adjustments_comment :: "string \<Rightarrow> string" where
  \<open>css_adjustments_comment style_tag =
     ''\<newline>\<newline>/* Custom '' @
     style_tag @
     '' style adjustments */\<newline>''\<close>

text \<open>The blocks appended by the \<open>if\<close> chain on the style tag.\<close>

definition CLEAN_BLOCK :: string where
  \<open>CLEAN_BLOCK =
     ''\<newline>.message {\<newline>    border-radius: 4px;\<newline>}\<newline>.input-container {\<newline>'' @
     ''    border-radius: 4px;\<newline>}\<newline>''\<close>

definition TRADITIONAL_BLOCK :: string where
  \<open>TRADITIONAL_BLOCK =
     ''\<newline>.message {\<newline>    border-radius: 0;\<newline>'' @
     ''    border-bottom: 1px solid rgba(0,0,0,0.1);\<newline>}\<newline>'' @
     ''h1, h2, h3 {\<newline>    font-weight: normal;\<newline>'' @
     ''    letter-spacing: -0.5px;\<newline>}\<newline>''\<close>

definition MINIMAL_BLOCK :: string where
  \<open>MINIMAL_BLOCK =
     ''\<newline>* {\<newline>    transition: all 0.2s ease;\<newline>}\<newline>.message {\<newline>'' @
     ''    border: none;\<newline>'' @
     ''    border-bottom: 1px solid rgba(0,0,0,0.05);\<newline>'' @
     ''    margin-bottom: 8px;\<newline>}\<newline>button {\<newline>    border-radius: 3px;\<newline>'' @
     ''}\<newline>''\<close>

definition CODE_BLOCK :: string where
  \<open>CODE_BLOCK =
     ''\<newline>pre, code {\<newline>    font-family: var(--font-family);\<newline>}\<newline>'' @
     ''.message {\<newline>    border-radius: 0;\<newline>'' @
     ''    border-left: 2px solid var(--primary-color);\<newline>}\<newline>'' @
     ''.user-message {\<newline>    border-left: 2px solid #606060;\<newline>}\<newline>''\<close>

definition ROUNDED_BLOCK :: string where
  \<open>ROUNDED_BLOCK =
     ''\<newline>.message {\<newline>    border-radius: 18px;\<newline>}\<newline>button {\<newline>'' @
     ''    border-radius: 24px;\<newline>}\<newline>.chat-form input {\<newline>'' @
     ''    border-radius: 24px;\<newline>}\<newline>''\<close>

definition font_specific_styles :: "string \<Rightarrow> string" where
  "font_specific_styles style_tag =
     (if style_tag = ''clean'' then CLEAN_BLOCK
      else if style_tag = ''traditional'' then TRADITIONAL_BLOCK
      else if style_tag = ''minimal'' then MINIMAL_BLOCK
      else if style_tag = ''code'' then CODE_BLOCK
      else if style_tag = ''rounded'' then ROUNDED_BLOCK
      else [])"

text \<open>
  Reading the base stylesheet. \<open>base_css_path\<close> is
  \<open>target_dir.parent / "src" / "static" / "css" / "style.css"\<close>: it lies beside the target
  directory, and neither the \<open>mkdir\<close> nor the write of this function touches it, so what is
  found there is a parameter: \<open>Absent\<close> when \<open>exists()\<close> is false, \<open>Reads content\<close> when the
  file reads as \<open>content\<close>, \<open>ReadFails\<close> when it exists and \<open>open\<close> or \<open>read\<close> raises (it is
  a directory, permission is denied, or it does not decode). An absent file is logged as a
  warning and replaced by a default comment; a failing read is not caught.
\<close>

datatype file_read = Absent | Reads string | ReadFails

definition read_base_css :: "path \<Rightarrow> file_read \<Rightarrow> py_error + string \<times> log_event list" where
  "read_base_css base_css_path base_css_file =
     (case base_css_file of
        Reads content \<Rightarrow> Inr (content, [])
      | ReadFails \<Rightarrow> Inl (OSError base_css_path)
      | Absent \<Rightarrow>
          Inr (''/* Default styles */\<newline>'', [LogWarning ''Base CSS file not found at '']))"

text \<open>\<open>Path.name\<close>: the last component, empty for the empty path.\<close>

definition path_name :: "path \<Rightarrow> string" where
  "path_name p = (if p = [] then [] else last p)"

text \<open>
  The function, on the file system that holds the target directory, in the order of the
  code: the \<open>info\<close> line, \<open>css_dir.mkdir(parents=True, exist_ok=True)\<close>, the base stylesheet,
  the f-string, the block of the style tag, and the write of \<open>css_dir / "style.css"\<close>. There
  is no \<open>try\<close>: an exception of the \<open>mkdir\<close>, of the read or of the write is the third
  component of the result.
\<close>

definition generate_custom_css ::
  "path \<Rightarrow> theme_colors \<Rightarrow> font_style \<Rightarrow> file_read \<Rightarrow> filesystem
     \<Rightarrow> filesystem \<times> log_event list \<times> py_error option" where
  "generate_custom_css target_dir theme_colors font_style base_css_file fs =
     (let started = [LogInfo ''Generating custom CSS with ''];
          css_dir = target_dir @ [''src'', ''static'', ''css''];
          base_css_path = butlast target_dir @ [''src'', ''static'', ''css'', ''style.css'']
      in
        case mkdir_parents fs css_dir of
          Inl e \<Rightarrow> (fs, started, Some e)
        | Inr fs1 \<Rightarrow>
            (case read_base_css base_css_path base_css_file of
               Inl e \<Rightarrow> (fs1, started, Some e)
             | Inr (base_css, warned) \<Rightarrow>
                 (case write_file fs1 (css_dir @ [''style.css''])
                         (custom_css_template (path_name target_dir) theme_colors font_style base_css
                            @ font_specific_styles (style font_style)) of
                    Inl e \<Rightarrow> (fs1, started @ warned, Some e)
                  | Inr fs2 \<Rightarrow> (fs2, started @ warned, None))))"

section \<open>Facts about the string operations\<close>

lemma py_rstrip_prefix: "prefix (py_rstrip s) s"
proof -
  have "suffix (dropWhile py_isspace (rev s)) (rev s)"
    by (rule suffix_dropWhile)
  then have "prefix (rev (dropWhile py_isspace (rev s))) (rev (rev s))"
    by (simp only: suffix_to_prefix)
  then show ?thesis
    by (simp add: py_rstrip_def)
qed

lemma py_strip_sublist: "sublist (py_strip s) s"
proof -
  have "sublist (py_strip s) (py_lstrip s)"
    unfolding py_strip_def by (rule prefix_imp_sublist [OF py_rstrip_prefix])
  moreover have "sublist (py_lstrip s) s"
    unfolding py_lstrip_def by (rule sublist_dropWhile)
  ultimately show ?thesis
    by (rule sublist_order.order.trans)
qed

lemma split_at_first_decomp:
  "split_at_first sep s = Some (a, r) \<Longrightarrow> s = a @ sep @ r"
proof (induction s arbitrary: a)
  case Nil
  then show ?case by (simp split: if_splits)
next
  case (Cons c cs)
  show ?case
  proof (cases "prefix sep (c # cs)")
    case True
    then obtain zs where zs: "c # cs = sep @ zs" by (auto simp: prefix_def)
    from True Cons.prems have "a = []" "r = drop (length sep) (c # cs)" by auto
    with zs show ?thesis by simp
  next
    case False
    with Cons.prems obtain a' where "split_at_first sep cs = Some (a', r)" "a = c # a'"
      by (auto split: option.splits)
    with Cons.IH show ?thesis by auto
  qed
qed

lemma split_at_first_earlier:
  "split_at_first sep s = Some (a, r) \<Longrightarrow> i < length a \<Longrightarrow> \<not> prefix sep (drop i s)"
proof (induction s arbitrary: a i)
  case Nil
  then show ?case by (simp split: if_splits)
next
  case (Cons c cs)
  show ?case
  proof (cases "prefix sep (c # cs)")
    case True
    with Cons.prems show ?thesis by auto
  next
    case False
    with Cons.prems obtain a' where a': "split_at_first sep cs = Some (a', r)" "a = c # a'"
      by (auto split: option.splits)
    show ?thesis
    proof (cases i)
      case 0
      with False show ?thesis by simp
    next
      case (Suc j)
      with Cons.prems a' have "j < length a'" by simp
      with Cons.IH a' have "\<not> prefix sep (drop j cs)" by blast
      with Suc show ?thesis by simp
    qed
  qed
qed

lemma split_at_first_first:
  "sep \<noteq> [] \<Longrightarrow> \<forall>i<length a. \<not> prefix sep (drop i (a @ sep @ r)) \<Longrightarrow>
     split_at_first sep (a @ sep @ r) = Some (a, r)"
proof (induction a)
  case Nil
  then show ?case by (cases sep) auto
next
  case (Cons c a)
  from Cons.prems(2) have "\<not> prefix sep (drop 0 ((c # a) @ sep @ r))" by blast
  then have np: "\<not> prefix sep (c # a @ sep @ r)" by simp
  have "\<forall>i<length a. \<not> prefix sep (drop i (a @ sep @ r))"
  proof (intro allI impI)
    fix i assume "i < length a"
    then have "Suc i < length (c # a)" by simp
    with Cons.prems(2) have "\<not> prefix sep (drop (Suc i) ((c # a) @ sep @ r))" by blast
    then show "\<not> prefix sep (drop i (a @ sep @ r))" by simp
  qed
  with Cons.IH Cons.prems(1) have "split_at_first sep (a @ sep @ r) = Some (a, r)" by blast
  with np show ?case by simp
qed

lemma split_at_first_None:
  "split_at_first sep s = None \<Longrightarrow> \<not> sublist sep s"
proof (induction s)
  case Nil
  then show ?case by (simp split: if_splits)
next
  case (Cons c cs)
  then show ?case
    by (auto simp: sublist_Cons_right split: if_splits option.splits)
qed

lemma split_scan_found:
  "sep \<noteq> [] \<Longrightarrow> split_at_first sep s = Some (a, r) \<Longrightarrow>
     split_scan sep acc s = (rev acc @ a) # split_scan sep [] r"
proof (induction s arbitrary: acc a)
  case Nil
  then show ?case by simp
next
  case (Cons c cs)
  show ?case
  proof (cases "prefix sep (c # cs)")
    case True
    from Cons.prems(1) have "drop (length sep) (c # cs) = drop (length sep - 1) cs"
      by (cases sep) auto
    with True Cons.prems show ?thesis by auto
  next
    case False
    with Cons.prems obtain a' where a': "split_at_first sep cs = Some (a', r)" "a = c # a'"
      by (auto split: option.splits)
    from Cons.IH [OF Cons.prems(1) a'(1), of "c # acc"] False a'(2) show ?thesis by simp
  qed
qed

lemma split_scan_not_found:
  "split_at_first sep s = None \<Longrightarrow> split_scan sep acc s = [rev acc @ s]"
proof (induction s arbitrary: acc)
  case Nil
  then show ?case by simp
next
  case (Cons c cs)
  then show ?case by (auto split: if_splits option.splits)
qed

subsection \<open>The two heading markers cannot overlap\<close>

lemma split_scan_nonempty: "split_scan sep acc s \<noteq> []"
  by (induction sep acc s rule: split_scan.induct) auto

lemma default_marker_tail_not_tips:
  assumes "DEFAULT_PROMPT_MARKER = m @ us" and "m \<noteq> []" and "us \<noteq> []"
  shows "\<not> prefix us (TIPS_MARKER @ b)"
  using assms
  by (auto simp: DEFAULT_PROMPT_MARKER_def TIPS_MARKER_def append_eq_Cons_conv Cons_eq_append_conv)

lemma tips_tail_not_default_marker:
  assumes "d < 7"
  shows "\<not> prefix DEFAULT_PROMPT_MARKER (drop d TIPS_MARKER @ b)"
proof -
  from assms have "d = 0 \<or> d = 1 \<or> d = 2 \<or> d = 3 \<or> d = 4 \<or> d = 5 \<or> d = 6"
    by arith
  then show ?thesis
    by (auto simp: DEFAULT_PROMPT_MARKER_def TIPS_MARKER_def)
qed

lemma no_default_marker_before_tips_end:
  assumes occ: "prefix DEFAULT_PROMPT_MARKER (drop q (mid @ TIPS_MARKER @ b))"
    and nomid: "\<not> sublist DEFAULT_PROMPT_MARKER mid"
  shows "length mid + length TIPS_MARKER \<le> q"
proof (rule ccontr)
  assume "\<not> length mid + length TIPS_MARKER \<le> q"
  then have q: "q < length mid + 7"
    by (simp add: TIPS_MARKER_def)
  show False
  proof (cases "q < length mid")
    case True
    define m where "m = drop q mid"
    from True have mne: "m \<noteq> []" by (simp add: m_def)
    from True occ have "prefix DEFAULT_PROMPT_MARKER (m @ TIPS_MARKER @ b)"
      by (simp add: m_def)
    then consider "prefix DEFAULT_PROMPT_MARKER m"
      | us where "DEFAULT_PROMPT_MARKER = m @ us" "prefix us (TIPS_MARKER @ b)"
      by (auto simp: prefix_append)
    then show False
    proof cases
      case 1
      then have "sublist DEFAULT_PROMPT_MARKER m" by (rule prefix_imp_sublist)
      moreover have "sublist m mid" unfolding m_def by (rule sublist_drop)
      ultimately have "sublist DEFAULT_PROMPT_MARKER mid"
        by (rule sublist_order.order.trans)
      with nomid show False by contradiction
    next
      case 2
      show False
      proof (cases "us = []")
        case True
        with 2 have "prefix DEFAULT_PROMPT_MARKER m" by simp
        then have "sublist DEFAULT_PROMPT_MARKER m" by (rule prefix_imp_sublist)
        moreover have "sublist m mid" unfolding m_def by (rule sublist_drop)
        ultimately have "sublist DEFAULT_PROMPT_MARKER mid"
          by (rule sublist_order.order.trans)
        with nomid show False by contradiction
      next
        case False
        from default_marker_tail_not_tips [OF 2(1) mne False] 2(2) show False
          by contradiction
      qed
    qed
  next
    case False
    have tips_len: "length TIPS_MARKER = 7" by (simp add: TIPS_MARKER_def)
    define d where "d = q - length mid"
    from False q have d: "d < 7" by (simp add: d_def)
    from False have "drop q (mid @ TIPS_MARKER @ b) = drop d (TIPS_MARKER @ b)"
      by (simp add: d_def)
    also from d have "\<dots> = drop d TIPS_MARKER @ b"
      using tips_len by simp
    finally show False
      using occ tips_tail_not_default_marker [OF d] by simp
  qed
qed

lemma first_field_found:
  "sep \<noteq> [] \<Longrightarrow> split_at_first sep s = Some (x, y) \<Longrightarrow> hd (split_scan sep [] s) = x"
  by (simp add: split_scan_found)

lemma first_field_not_found:
  "split_at_first sep s = None \<Longrightarrow> hd (split_scan sep [] s) = s"
  by (simp add: split_scan_not_found)

lemma tips_first_in_field:
  assumes dp: "split_at_first DEFAULT_PROMPT_MARKER rest = Some (x, y)"
    and tips: "split_at_first TIPS_MARKER rest = Some (mid, b)"
    and nomid: "\<not> sublist DEFAULT_PROMPT_MARKER mid"
  shows "\<exists>b'. split_at_first TIPS_MARKER x = Some (mid, b')"
proof -
  have rx: "rest = x @ DEFAULT_PROMPT_MARKER @ y"
    using dp by (rule split_at_first_decomp)
  have rm: "rest = mid @ TIPS_MARKER @ b"
    using tips by (rule split_at_first_decomp)
  from rx have "prefix DEFAULT_PROMPT_MARKER (drop (length x) rest)" by simp
  with rm have "prefix DEFAULT_PROMPT_MARKER (drop (length x) (mid @ TIPS_MARKER @ b))"
    by simp
  from no_default_marker_before_tips_end [OF this nomid]
  have len: "length mid + length TIPS_MARKER \<le> length x" .
  define b' where "b' = take (length x - (length mid + length TIPS_MARKER)) b"
  from rx have "x = take (length x) rest" by simp
  also from len have "\<dots> = mid @ TIPS_MARKER @ b'"
    by (simp add: rm b'_def)
  finally have x: "x = mid @ TIPS_MARKER @ b'" .
  have "\<forall>i<length mid. \<not> prefix TIPS_MARKER (drop i (mid @ TIPS_MARKER @ b'))"
  proof (intro allI impI)
    fix i assume i: "i < length mid"
    from split_at_first_earlier [OF tips i] have no: "\<not> prefix TIPS_MARKER (drop i rest)" .
    from i len have "i \<le> length x" by simp
    then have "drop i rest = drop i x @ DEFAULT_PROMPT_MARKER @ y"
      by (simp add: rx)
    with no have "\<not> prefix TIPS_MARKER (drop i x)"
      by (auto simp: prefix_def)
    with x show "\<not> prefix TIPS_MARKER (drop i (mid @ TIPS_MARKER @ b'))" by simp
  qed
  moreover have "TIPS_MARKER \<noteq> []" by (simp add: TIPS_MARKER_def)
  ultimately have "split_at_first TIPS_MARKER (mid @ TIPS_MARKER @ b') = Some (mid, b')"
    by (simp add: split_at_first_first)
  with x show ?thesis by blast
qed

lemma extract_default_section_between:
  assumes "text_between DEFAULT_PROMPT_MARKER TIPS_MARKER content = Some mid"
    and nomid: "\<not> sublist DEFAULT_PROMPT_MARKER mid"
  shows "extract_default_section content = Some (py_strip mid)"
proof -
  from assms(1) obtain a rest b where
    dp1: "split_at_first DEFAULT_PROMPT_MARKER content = Some (a, rest)" and
    tips: "split_at_first TIPS_MARKER rest = Some (mid, b)"
    by (auto simp: text_between_def split: option.splits)
  have dne: "DEFAULT_PROMPT_MARKER \<noteq> []" by (simp add: DEFAULT_PROMPT_MARKER_def)
  have tne: "TIPS_MARKER \<noteq> []" by (simp add: TIPS_MARKER_def)
  have "py_split content DEFAULT_PROMPT_MARKER = a # split_scan DEFAULT_PROMPT_MARKER [] rest"
    using split_scan_found [OF dne dp1, of "[]"] by (simp add: py_split_def)
  moreover obtain f fs where ffs: "split_scan DEFAULT_PROMPT_MARKER [] rest = f # fs"
    using split_scan_nonempty [of DEFAULT_PROMPT_MARKER "[]" rest] by (cases "split_scan DEFAULT_PROMPT_MARKER [] rest") auto
  ultimately have idx1: "py_index (py_split content DEFAULT_PROMPT_MARKER) 1 = Some f"
    by (simp add: py_index_def)
  have "\<exists>b'. split_at_first TIPS_MARKER f = Some (mid, b')"
  proof (cases "split_at_first DEFAULT_PROMPT_MARKER rest")
    case None
    from first_field_not_found [OF None] ffs have "f = rest" by simp
    with tips show ?thesis by blast
  next
    case (Some p)
    obtain x y where p: "p = (x, y)" by (cases p)
    from first_field_found [OF dne Some [unfolded p]] ffs have "f = x" by simp
    with tips_first_in_field [OF Some [unfolded p] tips nomid] show ?thesis by simp
  qed
  then obtain b' where "split_at_first TIPS_MARKER f = Some (mid, b')" ..
  from split_scan_found [OF tne this, of "[]"]
  have "py_index (py_split f TIPS_MARKER) 0 = Some mid"
    by (simp add: py_split_def py_index_def)
  with idx1 show ?thesis
    by (simp add: extract_default_section_def)
qed

lemma text_between_markers_present:
  assumes "text_between m1 m2 s = Some mid"
  shows "sublist m1 s \<and> sublist m2 s"
proof -
  from assms obtain a rest b where
    1: "split_at_first m1 s = Some (a, rest)" and 2: "split_at_first m2 rest = Some (mid, b)"
    by (auto simp: text_between_def split: option.splits)
  from split_at_first_decomp [OF 1] have s: "s = a @ m1 @ rest" .
  from split_at_first_decomp [OF 2] have r: "rest = mid @ m2 @ b" .
  from s have "sublist m1 s" by (auto simp: sublist_def)
  moreover from s r have "s = (a @ m1 @ mid) @ m2 @ b" by simp
  then have "sublist m2 s" unfolding sublist_def by blast
  ultimately show ?thesis ..
qed

section \<open>Facts about dictionaries\<close>

lemma map_of_AList_update: "map_of (AList.update k v al) = (map_of al)(k \<mapsto> v)"
  by (rule update_conv')

lemma fill_defaults_dict:
  "\<exists>merged. fill_defaults ds (PDict parsed) = Inr (PDict merged)
     \<and> map_of merged = map_of ds ++ map_of parsed"
proof (induction ds arbitrary: parsed)
  case Nil
  then show ?case by simp
next
  case (Cons p ds)
  obtain key dv where p: "p = (key, dv)" by (cases p)
  show ?case
  proof (cases "key \<in> set (map fst parsed)")
    case True
    then have "key \<in> dom (map_of parsed)"
      by (simp add: dom_map_of_conv_image_fst)
    then have eq: "map_of (p # ds) ++ map_of parsed = map_of ds ++ map_of parsed"
      by (auto simp: p map_add_def fun_eq_iff split: option.splits)
    from Cons.IH [of parsed] obtain merged where
      m: "fill_defaults ds (PDict parsed) = Inr (PDict merged)"
         "map_of merged = map_of ds ++ map_of parsed"
      by blast
    from m(1) True have "fill_defaults (p # ds) (PDict parsed) = Inr (PDict merged)"
      by (simp add: p)
    moreover have "map_of merged = map_of (p # ds) ++ map_of parsed"
      by (rule trans [OF m(2) eq [symmetric]])
    ultimately show ?thesis
      by blast
  next
    case False
    then have nk: "map_of parsed key = None"
      by (simp add: map_of_eq_None_iff)
    from Cons.IH [of "AList.update key dv parsed"] obtain merged where
      m: "fill_defaults ds (PDict (AList.update key dv parsed)) = Inr (PDict merged)"
         "map_of merged = map_of ds ++ map_of (AList.update key dv parsed)"
      by blast
    have "map_of ds ++ map_of (AList.update key dv parsed) = map_of (p # ds) ++ map_of parsed"
      using nk by (auto simp: p map_of_AList_update map_add_def fun_eq_iff split: option.splits)
    then have eq: "map_of merged = map_of (p # ds) ++ map_of parsed"
      by (rule trans [OF m(2)])
    from m(1) False have "fill_defaults (p # ds) (PDict parsed) = Inr (PDict merged)"
      by (simp add: p)
    with eq show ?thesis
      by blast
  qed
qed

lemma map_of_rev_distinct:
  "distinct (map fst xs) \<Longrightarrow> map_of (rev xs) = map_of xs"
proof (induction xs)
  case Nil
  then show ?case by simp
next
  case (Cons p xs)
  then have "map_of xs (fst p) = None"
    by (simp add: map_of_eq_None_iff)
  with Cons show ?case
    by (auto simp: map_add_def fun_eq_iff split: option.splits)
qed

lemma update_parameters_dict:
  assumes "map_of config ''parameters'' = Some (PDict params)"
  shows "\<exists>config' params'.
           update_parameters (PDict config) param_updates = Inr (PDict config')
           \<and> map_of config' = (map_of config)(''parameters'' \<mapsto> PDict params')
           \<and> map fst config' = map fst config
           \<and> map_of params' = map_of params ++ map_of (rev param_updates)"
  using assms
proof (induction param_updates arbitrary: config params)
  case Nil
  then have "map_of config = (map_of config)(''parameters'' \<mapsto> PDict params)"
    by (simp add: fun_upd_idem)
  then show ?case
    by (intro exI [of _ config] exI [of _ params]) simp
next
  case (Cons p rest)
  obtain key v where p: "p = (key, v)" by (cases p)
  define params1 where "params1 = AList.update key v params"
  define config1 where "config1 = AList.update ''parameters'' (PDict params1) config"
  have c1: "map_of config1 ''parameters'' = Some (PDict params1)"
    by (simp add: config1_def update_conv')
  have step: "update_parameters (PDict config) (p # rest) = update_parameters (PDict config1) rest"
    using Cons.prems by (simp add: p params1_def config1_def)
  from Cons.prems have "''parameters'' \<in> fst ` set config"
    by (metis domI dom_map_of_conv_image_fst)
  then have keys1: "map fst config1 = map fst config"
    by (simp add: config1_def update_keys)
  from Cons.IH [OF c1] obtain config' params' where
    r: "update_parameters (PDict config1) rest = Inr (PDict config')"
       "map_of config' = (map_of config1)(''parameters'' \<mapsto> PDict params')"
       "map fst config' = map fst config1"
       "map_of params' = map_of params1 ++ map_of (rev rest)"
    by blast
  have "map_of config' = (map_of config)(''parameters'' \<mapsto> PDict params')"
    by (simp add: r(2) config1_def update_conv')
  moreover have "map_of params' = map_of params ++ map_of (rev (p # rest))"
    by (simp add: r(4) params1_def update_conv' p)
  moreover have "update_parameters (PDict config) (p # rest) = Inr (PDict config')"
    by (rule trans [OF step r(1)])
  moreover have "map fst config' = map fst config"
    by (rule trans [OF r(3) keys1])
  ultimately show ?case
    by blast
qed

section \<open>Facts about rendering\<close>

subsection \<open>Replacing in a text\<close>

lemma replace_scan_absent:
  "\<not> sublist old s \<Longrightarrow> replace_scan old new s = s"
  by (induction s) (auto simp: sublist_Cons_right)

lemma py_replace_absent:
  "\<not> sublist old s \<Longrightarrow> py_replace s old new = s"
  by (auto simp: py_replace_def replace_scan_absent)

lemma replace_scan_skip:
  assumes "old \<noteq> []" and "hd old \<notin> set s"
  shows "replace_scan old new (s @ r) = s @ replace_scan old new r"
  using assms
proof (induction s)
  case Nil
  then show ?case by simp
next
  case (Cons c s)
  from Cons.prems obtain h t where old: "old = h # t" "h \<noteq> c"
    by (cases old) auto
  then have "\<not> prefix old (c # s @ r)" by simp
  with Cons show ?case by simp
qed

lemma replace_scan_match:
  assumes "old \<noteq> []"
  shows "replace_scan old new (old @ r) = new @ replace_scan old new r"
proof -
  from assms obtain h t where old: "old = h # t" by (cases old) auto
  then show ?thesis by simp
qed

lemma replace_placeholders_append:
  "replace_placeholders py_str (xs @ ys) content
     = replace_placeholders py_str ys (replace_placeholders py_str xs content)"
  by (induction xs arbitrary: content) auto

lemma replace_placeholders_absent:
  "\<forall>(key, v) \<in> set config. \<not> sublist (placeholder key) content \<Longrightarrow>
     replace_placeholders py_str config content = content"
  by (induction config) (auto simp: py_replace_absent)

subsection \<open>Tokens of different keys do not overlap\<close>

lemma placeholder_unfold:
  "placeholder key
     = CHR ''{'' # CHR ''{'' # CHR ''{'' # CHR '' '' # key @ [CHR '' '', CHR ''}'', CHR ''}'', CHR ''}'']"
  by (simp add: placeholder_def)

lemma key_tail_prefix:
  assumes "CHR ''}'' \<notin> set k" and "CHR ''}'' \<notin> set k'"
    and "prefix (k @ CHR '' '' # CHR ''}'' # xs) (k' @ CHR '' '' # CHR ''}'' # ys)"
  shows "k = k'"
  using assms
proof (induction k arbitrary: k')
  case Nil
  then show ?case
  proof (cases k')
    case Nil
    then show ?thesis by simp
  next
    case (Cons c k'')
    with Nil.prems show ?thesis by (cases k'') auto
  qed
next
  case (Cons c k)
  show ?case
  proof (cases k')
    case Nil
    with Cons.prems show ?thesis by (cases k) auto
  next
    case (Cons c' k'')
    with Cons.prems Cons.IH [of k''] show ?thesis by auto
  qed
qed

lemma placeholder_prefix_same_key:
  assumes "brace_free k" and "brace_free k'"
    and "prefix (placeholder k) (placeholder k' @ r)"
  shows "k = k'"
proof -
  from assms(3) have
    "prefix (k @ CHR '' '' # CHR ''}'' # [CHR ''}'', CHR ''}''])
            (k' @ CHR '' '' # CHR ''}'' # ([CHR ''}'', CHR ''}''] @ r))"
    by (simp add: placeholder_unfold)
  with assms(1,2) show ?thesis
    unfolding brace_free_def by (blast intro: key_tail_prefix)
qed

lemma replace_scan_other_token:
  assumes k: "brace_free k" and k': "brace_free k'" and ne: "k \<noteq> k'"
  shows "replace_scan (placeholder k) new (placeholder k' @ r)
           = placeholder k' @ replace_scan (placeholder k) new r"
proof -
  have p0: "\<not> prefix (placeholder k) (placeholder k' @ r)"
    using placeholder_prefix_same_key [OF k k'] ne by blast
  define tail where "tail = CHR '' '' # k' @ [CHR '' '', CHR ''}'', CHR ''}'', CHR ''}'']"
  have pk': "placeholder k' @ r = CHR ''{'' # CHR ''{'' # CHR ''{'' # tail @ r"
    by (simp add: placeholder_unfold tail_def)
  have t0: "tail @ r = CHR '' '' # (k' @ [CHR '' '', CHR ''}'', CHR ''}'', CHR ''}''] @ r)"
    by (simp add: tail_def)
  have p1: "\<not> prefix (placeholder k) (CHR ''{'' # CHR ''{'' # tail @ r)"
    by (simp add: placeholder_unfold t0)
  have p2: "\<not> prefix (placeholder k) (CHR ''{'' # tail @ r)"
    by (simp add: placeholder_unfold t0)
  have ne0: "placeholder k \<noteq> []"
    by (simp add: placeholder_unfold)
  have "hd (placeholder k) \<notin> set tail"
    using k' by (simp add: placeholder_unfold tail_def brace_free_def)
  from replace_scan_skip [OF ne0 this]
  have skip: "replace_scan (placeholder k) new (tail @ r) = tail @ replace_scan (placeholder k) new r" .
  have pk'2: "placeholder k' = CHR ''{'' # CHR ''{'' # CHR ''{'' # tail"
    by (simp add: placeholder_unfold tail_def)
  have "replace_scan (placeholder k) new (placeholder k' @ r)
          = replace_scan (placeholder k) new (CHR ''{'' # CHR ''{'' # CHR ''{'' # tail @ r)"
    by (simp only: pk')
  also have "\<dots> = CHR ''{'' # CHR ''{'' # CHR ''{'' # replace_scan (placeholder k) new (tail @ r)"
    using p0 p1 p2 by (simp add: pk' del: append_Cons)
  also have "\<dots> = CHR ''{'' # CHR ''{'' # CHR ''{'' # tail @ replace_scan (placeholder k) new r"
    by (simp only: skip)
  also have "\<dots> = placeholder k' @ replace_scan (placeholder k) new r"
    by (simp add: pk'2)
  finally show ?thesis .
qed

subsection \<open>Replacing in a text cut into pieces\<close>

lemma template_text_Cons:
  "template_text (seg # segs) = segment_text seg @ template_text segs"
  by (simp add: template_text_def)

lemma template_text_append:
  "template_text (xs @ ys) = template_text xs @ template_text ys"
  by (simp add: template_text_def)

lemma template_text_concat:
  "template_text (concat xss) = concat (map template_text xss)"
  by (induction xss) (simp_all add: template_text_append, simp add: template_text_def)

lemma placeholder_nonempty: "placeholder key \<noteq> []"
  by (simp add: placeholder_unfold)

lemma token_safe_tail: "token_safe (c # s) \<Longrightarrow> token_safe s"
  by (auto simp: token_safe_def sublist_Cons_right)

lemma token_safe_no_start:
  assumes "token_safe (c # s)"
  shows "\<not> prefix (placeholder key) (c # s @ r)"
proof
  assume p: "prefix (placeholder key) (c # s @ r)"
  then have c: "c = CHR ''{''" and p1: "prefix (CHR ''{'' # CHR ''{'' # CHR '' '' # key) (s @ r)"
    by (auto simp: placeholder_unfold prefix_def)
  show False
  proof (cases s)
    case Nil
    with assms c show False by (simp add: token_safe_def)
  next
    case (Cons d s')
    with p1 have d: "d = CHR ''{''" and p2: "prefix (CHR ''{'' # CHR '' '' # key) (s' @ r)"
      by (auto simp: prefix_def)
    show False
    proof (cases s')
      case Nil
      with assms Cons d show False by (simp add: token_safe_def)
    next
      case (Cons e s'')
      with p2 have "e = CHR ''{''" by (auto simp: prefix_def)
      with c d \<open>s = d # s'\<close> Cons have "prefix ''{{{'' (c # s)" by simp
      then have "sublist ''{{{'' (c # s)" by (rule prefix_imp_sublist)
      with assms show False by (simp add: token_safe_def)
    qed
  qed
qed

lemma replace_scan_skip_safe:
  assumes "token_safe s"
  shows "replace_scan (placeholder key) new (s @ r) = s @ replace_scan (placeholder key) new r"
  using assms
proof (induction s)
  case Nil
  then show ?case by simp
next
  case (Cons c s)
  from token_safe_no_start [OF Cons.prems] have "\<not> prefix (placeholder key) (c # s @ r)" .
  moreover from Cons.IH token_safe_tail [OF Cons.prems]
  have "replace_scan (placeholder key) new (s @ r) = s @ replace_scan (placeholder key) new r" .
  ultimately show ?case by simp
qed

lemma replace_scan_template_text:
  assumes "list_all well_formed_segment segs" and "brace_free key"
  shows "replace_scan (placeholder key) (template_text vs) (template_text segs)
           = template_text (concat (map (subst_segment key vs) segs))"
  using assms(1)
proof (induction segs)
  case Nil
  then show ?case by (simp add: template_text_def)
next
  case (Cons seg segs)
  then have IH: "replace_scan (placeholder key) (template_text vs) (template_text segs)
                   = template_text (concat (map (subst_segment key vs) segs))"
    by simp
  show ?case
  proof (cases seg)
    case (Literal s)
    with Cons.prems have "token_safe s" by simp
    from replace_scan_skip_safe [OF this] IH Literal show ?thesis
      by (simp add: template_text_Cons template_text_append)
  next
    case (Token k)
    show ?thesis
    proof (cases "k = key")
      case True
      with replace_scan_match [OF placeholder_nonempty] IH Token show ?thesis
        by (simp add: template_text_Cons template_text_append)
    next
      case False
      from Cons.prems Token have "brace_free k" by simp
      from replace_scan_other_token [OF assms(2) this] False IH Token show ?thesis
        by (auto simp: template_text_Cons template_text_append)
    qed
  qed
qed

lemma py_replace_template_text:
  assumes "list_all well_formed_segment segs" and "brace_free key"
  shows "py_replace (template_text segs) (placeholder key) (template_text vs)
           = template_text (concat (map (subst_segment key vs) segs))"
  using replace_scan_template_text [OF assms]
  by (simp add: py_replace_def placeholder_nonempty)

lemma subst_well_formed:
  assumes "list_all well_formed_segment segs" and "list_all well_formed_segment vs"
  shows "list_all well_formed_segment (concat (map (subst_segment key vs) segs))"
  using assms(1)
proof (induction segs)
  case Nil
  then show ?case by simp
next
  case (Cons seg segs)
  with assms(2) show ?case by (cases seg) auto
qed

lemma well_formed_config_Cons:
  assumes "well_formed_config py_str shape ((key, v) # rest)"
  shows "well_formed_config py_str shape rest"
    and "brace_free key"
    and "py_str v = template_text (shape v)"
    and "list_all well_formed_segment (shape v)"
    and "key \<notin> fst ` set rest"
  using assms by (auto simp: well_formed_config_def)

lemma replace_placeholders_expand:
  assumes "well_formed_config py_str shape config"
    and "list_all well_formed_segment segs"
  shows "replace_placeholders py_str config (template_text segs)
           = template_text (expand shape config segs)"
    and "list_all well_formed_segment (expand shape config segs)"
  using assms
proof (induction config arbitrary: segs)
  case Nil
  {
    case 1 then show ?case by simp
  next
    case 2 then show ?case by simp
  }
next
  case (Cons p config)
  obtain key v where p: "p = (key, v)" by (cases p)
  {
    case 1
    note wf = well_formed_config_Cons [OF 1(1) [unfolded p]]
    let ?segs = "concat (map (subst_segment key (shape v)) segs)"
    have s: "list_all well_formed_segment ?segs"
      using 1(2) wf(4) by (rule subst_well_formed)
    from py_replace_template_text [OF 1(2) wf(2), of "shape v"] wf(3)
    have "py_replace (template_text segs) (placeholder key) (py_str v) = template_text ?segs"
      by simp
    with Cons.IH(1) [OF wf(1) s] show ?case
      by (simp add: p)
  next
    case 2
    note wf = well_formed_config_Cons [OF 2(1) [unfolded p]]
    let ?segs = "concat (map (subst_segment key (shape v)) segs)"
    have s: "list_all well_formed_segment ?segs"
      using 2(2) wf(4) by (rule subst_well_formed)
    from Cons.IH(2) [OF wf(1) s] show ?case
      by (simp add: p)
  }
qed

subsection \<open>Literal insertion, and the tokens that are left\<close>




lemma subst_segment_tokens:
  "Token k \<in> set (concat (map (subst_segment key vs) segs)) \<Longrightarrow>
     (Token k \<in> set segs \<and> k \<noteq> key) \<or> Token k \<in> set vs"
proof (induction segs)
  case Nil
  then show ?case by simp
next
  case (Cons seg segs)
  then show ?case
    by (cases seg) (auto split: if_splits)
qed

lemma expand_no_configured_token:
  assumes "no_own_or_earlier_token shape earlier config"
    and "\<forall>k \<in> set earlier. Token k \<notin> set segs"
  shows "\<forall>k \<in> set earlier \<union> fst ` set config. Token k \<notin> set (expand shape config segs)"
  using assms
proof (induction config arbitrary: earlier segs)
  case Nil
  then show ?case by simp
next
  case (Cons p config)
  obtain key v where p: "p = (key, v)" by (cases p)
  from Cons.prems(1) have clean: "\<forall>k \<in> set (key # earlier). Token k \<notin> set (shape v)"
    and rest: "no_own_or_earlier_token shape (key # earlier) config"
    by (simp_all add: p list_all_iff)
  let ?segs = "concat (map (subst_segment key (shape v)) segs)"
  have "\<forall>k \<in> set (key # earlier). Token k \<notin> set ?segs"
  proof
    fix k assume k: "k \<in> set (key # earlier)"
    show "Token k \<notin> set ?segs"
    proof
      assume "Token k \<in> set ?segs"
      from subst_segment_tokens [OF this] clean k Cons.prems(2) show False
        by auto
    qed
  qed
  from Cons.IH [OF rest this] show ?case
    by (simp add: p)
qed

lemma replace_scan_empty_length:
  "length (replace_scan old [] t) \<le> length t"
proof (induction old "[] :: string" t rule: replace_scan.induct)
  case (1 old)
  then show ?case by simp
next
  case (2 old c cs)
  then show ?case by (auto simp: le_Suc_eq) 
qed

lemma replace_scan_empty_shrinks:
  assumes "old \<noteq> []" and "sublist old t"
  shows "length (replace_scan old [] t) < length t"
  using assms(2)
proof (induction t)
  case Nil
  with assms(1) show ?case by simp
next
  case (Cons c cs)
  show ?case
  proof (cases "prefix old (c # cs)")
    case True
    have "length (replace_scan old [] (drop (length old - 1) cs)) \<le> length (drop (length old - 1) cs)"
      by (rule replace_scan_empty_length)
    with True show ?thesis by simp
  next
    case False
    with Cons.prems have "sublist old cs"
      by (simp add: sublist_Cons_right)
    with Cons.IH False show ?thesis by simp
  qed
qed

lemma subst_segment_absent:
  "Token key \<notin> set segs \<Longrightarrow> concat (map (subst_segment key vs) segs) = segs"
proof (induction segs)
  case Nil
  then show ?case by simp
next
  case (Cons seg segs)
  then show ?case by (cases seg) auto
qed

lemma token_occurs_in_segments:
  assumes "list_all well_formed_segment segs" and "brace_free key"
    and "sublist (placeholder key) (template_text segs)"
  shows "Token key \<in> set segs"
proof (rule ccontr)
  assume "Token key \<notin> set segs"
  then have "concat (map (subst_segment key []) segs) = segs"
    by (rule subst_segment_absent)
  with replace_scan_template_text [OF assms(1,2), of "[]"]
  have "replace_scan (placeholder key) [] (template_text segs) = template_text segs"
    by (simp add: template_text_def)
  with replace_scan_empty_shrinks [OF placeholder_nonempty assms(3), of ]
  show False by simp
qed

lemma rendered_without_configured_token:
  assumes wfc: "well_formed_config py_str shape config"
    and clean: "no_own_or_earlier_token shape [] config"
    and segs: "list_all well_formed_segment segs"
    and key: "key \<in> fst ` set config"
  shows "\<not> sublist (placeholder key) (replace_placeholders py_str config (template_text segs))"
proof
  assume occ: "sublist (placeholder key) (replace_placeholders py_str config (template_text segs))"
  from replace_placeholders_expand [OF wfc segs]
  have eq: "replace_placeholders py_str config (template_text segs)
              = template_text (expand shape config segs)"
    and wf: "list_all well_formed_segment (expand shape config segs)"
    by blast+
  from wfc key have bf: "brace_free key"
    by (auto simp: well_formed_config_def list_all_iff)
  from token_occurs_in_segments [OF wf bf] occ eq
  have "Token key \<in> set (expand shape config segs)" by simp
  moreover from expand_no_configured_token [OF clean, of segs] key
  have "Token key \<notin> set (expand shape config segs)" by auto
  ultimately show False by contradiction
qed

subsection \<open>Making directories and writing a file\<close>

lemma set_tl_prefixes: "set (tl (prefixes d)) = {q. q \<noteq> [] \<and> prefix q d}"
proof (cases d)
  case Nil
  then show ?thesis by auto
next
  case (Cons x xs)
  then show ?thesis by (auto simp: prefix_Cons)
qed

lemma mkdir_each_result:
  "mkdir_each fs ps = Inr fs' \<Longrightarrow> fs' = (\<lambda>q. if q \<in> set ps then Some FDir else fs q)"
proof (induction ps arbitrary: fs)
  case Nil
  then show ?case by simp
next
  case (Cons p ps)
  from Cons.prems have "mkdir_each (fs(p \<mapsto> FDir)) ps = Inr fs'"
    by (auto split: option.splits fnode.splits)
  from Cons.IH [OF this] show ?case
    by (auto simp: fun_eq_iff)
qed

lemma mkdir_each_ok:
  "\<forall>p \<in> set ps. \<not> is_file fs p \<Longrightarrow> \<exists>fs'. mkdir_each fs ps = Inr fs'"
proof (induction ps arbitrary: fs)
  case Nil
  then show ?case by simp
next
  case (Cons p ps)
  have "\<forall>q \<in> set ps. \<not> is_file (fs(p \<mapsto> FDir)) q"
    using Cons.prems by (auto simp: is_file_def)
  from Cons.IH [OF this] obtain fs' where "mkdir_each (fs(p \<mapsto> FDir)) ps = Inr fs'" ..
  moreover from Cons.prems have "\<not> is_file fs p" by simp
  ultimately show ?case
    by (auto simp: is_file_def split: option.splits fnode.splits)
qed

lemma mkdir_parents_result:
  "mkdir_parents fs d = Inr fs' \<Longrightarrow>
     fs' = (\<lambda>q. if q \<noteq> [] \<and> prefix q d then Some FDir else fs q)"
  unfolding mkdir_parents_def
  by (drule mkdir_each_result) (simp add: set_tl_prefixes)

lemma mkdir_parents_ok:
  "\<forall>q. q \<noteq> [] \<and> prefix q d \<longrightarrow> \<not> is_file fs q \<Longrightarrow> \<exists>fs'. mkdir_parents fs d = Inr fs'"
  unfolding mkdir_parents_def
  by (rule mkdir_each_ok) (simp add: set_tl_prefixes)

lemma prefix_butlast_strict:
  assumes "q \<noteq> []" and "prefix q (butlast t)"
  shows "strict_prefix q t"
proof -
  from assms have "t \<noteq> []" by auto
  then have "t = butlast t @ [last t]" by simp
  with assms(2) obtain r where "t = q @ r @ [last t]"
    by (metis append.assoc prefix_def)
  then show ?thesis
    by (metis append_is_Nil_conv not_Cons_self2 strict_prefixI' neq_Nil_conv)
qed

text \<open>One file: its directories are made and its text is written.\<close>

lemma file_step:
  assumes path: "t \<noteq> []"
    and dir: "fs t \<noteq> Some FDir"
    and above: "\<forall>q. q \<noteq> [] \<and> strict_prefix q t \<longrightarrow> \<not> is_file fs q"
  shows "\<exists>fs1. mkdir_parents fs (butlast t) = Inr fs1
           \<and> write_file fs1 t out
               = Inr (\<lambda>q. if q = t then Some (FFile out)
                          else if q \<noteq> [] \<and> prefix q (butlast t) then Some FDir else fs q)"
proof -
  have "\<forall>q. q \<noteq> [] \<and> prefix q (butlast t) \<longrightarrow> \<not> is_file fs q"
    using above prefix_butlast_strict by blast
  from mkdir_parents_ok [OF this] obtain fs1 where m: "mkdir_parents fs (butlast t) = Inr fs1" ..
  from mkdir_parents_result [OF m]
  have fs1: "fs1 = (\<lambda>q. if q \<noteq> [] \<and> prefix q (butlast t) then Some FDir else fs q)" .
  have nt: "\<not> (t \<noteq> [] \<and> prefix t (butlast t))"
    using prefix_butlast_strict [of t t] by auto
  have "fs1 t \<noteq> Some FDir"
    using dir nt by (simp add: fs1)
  moreover have "butlast t \<noteq> [] \<longrightarrow> fs1 (butlast t) = Some FDir"
    by (simp add: fs1)
  ultimately have "write_file fs1 t out = Inr (fs1(t \<mapsto> FFile out))"
    unfolding write_file_def using path by auto
  moreover have "fs1(t \<mapsto> FFile out)
                   = (\<lambda>q. if q = t then Some (FFile out)
                          else if q \<noteq> [] \<and> prefix q (butlast t) then Some FDir else fs q)"
    by (auto simp: fs1 fun_eq_iff)
  ultimately show ?thesis
    using m by simp
qed

subsection \<open>The loop over the tree\<close>

lemma source_files_simps:
  "source_files [] = {}"
  "source_files ((relative_path, SrcFile content) # tree) = insert relative_path (source_files tree)"
  "source_files ((relative_path, SrcDir) # tree) = source_files tree"
  "source_files ((relative_path, SrcUnreadable) # tree) = source_files tree"
  by (auto simp: source_files_def)

lemma source_files_subset: "source_files tree \<subseteq> fst ` set tree"
  by (force simp: source_files_def)

lemma strict_prefix_same_append:
  "strict_prefix (d @ x) (d @ y) \<longleftrightarrow> strict_prefix x y"
  by (simp add: strict_prefix_def)

lemma render_files_frame:
  assumes "\<forall>(relative_path, node) \<in> set tree. node \<noteq> SrcDir \<longrightarrow>
             p \<noteq> target_dir @ relative_path \<and> \<not> strict_prefix p (target_dir @ relative_path)"
  shows "fst (render_files py_str tree target_dir config fs) p = fs p"
  using assms
proof (induction tree arbitrary: fs)
  case Nil
  then show ?case by simp
next
  case (Cons e tree)
  obtain rel node where e: "e = (rel, node)" by (cases e)
  from Cons.prems have rest:
    "\<forall>(relative_path, node) \<in> set tree. node \<noteq> SrcDir \<longrightarrow>
       p \<noteq> target_dir @ relative_path \<and> \<not> strict_prefix p (target_dir @ relative_path)"
    by simp
  note IH = Cons.IH [OF rest]
  show ?case
  proof (cases "node = SrcDir")
    case True
    with IH show ?thesis by (simp add: e)
  next
    case False
    with Cons.prems have p: "p \<noteq> target_dir @ rel" "\<not> strict_prefix p (target_dir @ rel)"
      by (auto simp: e)
    have made: "fs1 p = fs p" if "mkdir_parents fs (butlast (target_dir @ rel)) = Inr fs1" for fs1
    proof -
      from mkdir_parents_result [OF that] p(2) prefix_butlast_strict [of p "target_dir @ rel"]
      show ?thesis by auto
    qed
    show ?thesis
    proof (cases node)
      case SrcDir
      with False show ?thesis by simp
    next
      case SrcUnreadable
      with made show ?thesis
        by (auto simp: e split: sum.splits)
    next
      case (SrcFile content)
      show ?thesis
      proof (cases "mkdir_parents fs (butlast (target_dir @ rel))")
        case (Inl err)
        with SrcFile show ?thesis by (simp add: e)
      next
        case (Inr fs1)
        note fs1 = made [OF Inr]
        show ?thesis
        proof (cases "write_file fs1 (target_dir @ rel) (replace_placeholders py_str config content)")
          case (Inl err)
          with Inr SrcFile fs1 show ?thesis by (simp add: e)
        next
          case (Inr fs2)
          then have "fs2 p = fs1 p"
            using p(1) by (auto simp: write_file_def split: if_splits)
          with IH [of fs2] fs1 Inr \<open>mkdir_parents fs (butlast (target_dir @ rel)) = Inr fs1\<close> SrcFile
          show ?thesis by (simp add: e)
        qed
      qed
    qed
  qed
qed

lemma render_files_ok:
  assumes "\<forall>(relative_path, node) \<in> set tree. node \<noteq> SrcUnreadable"
    and "distinct (map fst tree)"
    and "\<forall>p \<in> source_files tree. \<forall>q \<in> source_files tree. \<not> strict_prefix p q"
    and "\<forall>relative_path \<in> source_files tree.
           target_dir @ relative_path \<noteq> []
           \<and> fs (target_dir @ relative_path) \<noteq> Some FDir
           \<and> (\<forall>q. q \<noteq> [] \<and> strict_prefix q (target_dir @ relative_path) \<longrightarrow> \<not> is_file fs q)"
  shows "snd (render_files py_str tree target_dir config fs) = None
         \<and> (\<forall>relative_path content. (relative_path, SrcFile content) \<in> set tree \<longrightarrow>
               fst (render_files py_str tree target_dir config fs) (target_dir @ relative_path)
                 = Some (FFile (replace_placeholders py_str config content)))
         \<and> (\<forall>p. p \<notin> (@) target_dir ` source_files tree \<longrightarrow>
               is_file (fst (render_files py_str tree target_dir config fs)) p = is_file fs p)"
  using assms
proof (induction tree arbitrary: fs)
  case Nil
  then show ?case by (simp add: source_files_simps)
next
  case (Cons e tree)
  obtain rel node where e: "e = (rel, node)" by (cases e)
  from Cons.prems(1) have readable: "\<forall>(relative_path, node) \<in> set tree. node \<noteq> SrcUnreadable"
    by simp
  from Cons.prems(2) have distinct: "distinct (map fst tree)" and fresh: "rel \<notin> fst ` set tree"
    by (simp_all add: e)
  show ?case
  proof (cases node)
    case SrcUnreadable
    with Cons.prems(1) show ?thesis by (simp add: e)
  next
    case SrcDir
    from Cons.prems(3,4) have
      "\<forall>p \<in> source_files tree. \<forall>q \<in> source_files tree. \<not> strict_prefix p q"
      "\<forall>relative_path \<in> source_files tree.
         target_dir @ relative_path \<noteq> []
         \<and> fs (target_dir @ relative_path) \<noteq> Some FDir
         \<and> (\<forall>q. q \<noteq> [] \<and> strict_prefix q (target_dir @ relative_path) \<longrightarrow> \<not> is_file fs q)"
      by (simp_all add: e SrcDir source_files_simps)
    from Cons.IH [OF readable distinct this] show ?thesis
      by (simp add: e SrcDir source_files_simps)
  next
    case (SrcFile content)
    let ?t = "target_dir @ rel"
    let ?out = "replace_placeholders py_str config content"
    define fs2 where
      "fs2 = (\<lambda>q. if q = ?t then Some (FFile ?out)
                  else if q \<noteq> [] \<and> prefix q (butlast ?t) then Some FDir else fs q)"
    have files: "source_files (e # tree) = insert rel (source_files tree)"
      by (simp add: e SrcFile source_files_simps)
    from Cons.prems(3) have nested:
      "\<forall>p \<in> source_files tree. \<forall>q \<in> source_files tree. \<not> strict_prefix p q"
      and nested_rel: "\<forall>q \<in> source_files tree. \<not> strict_prefix rel q \<and> \<not> strict_prefix q rel"
      by (auto simp: files)
    from Cons.prems(4) have here:
      "?t \<noteq> []" "fs ?t \<noteq> Some FDir" "\<forall>q. q \<noteq> [] \<and> strict_prefix q ?t \<longrightarrow> \<not> is_file fs q"
      and target: "\<forall>relative_path \<in> source_files tree.
           target_dir @ relative_path \<noteq> []
           \<and> fs (target_dir @ relative_path) \<noteq> Some FDir
           \<and> (\<forall>q. q \<noteq> [] \<and> strict_prefix q (target_dir @ relative_path) \<longrightarrow> \<not> is_file fs q)"
      by (simp_all add: files)
    from file_step [OF here, of ?out] obtain fs1 where
      step: "mkdir_parents fs (butlast ?t) = Inr fs1" "write_file fs1 ?t ?out = Inr fs2"
      unfolding fs2_def by blast
    then have run: "render_files py_str (e # tree) target_dir config fs
                      = render_files py_str tree target_dir config fs2"
      by (simp add: e SrcFile)
    have other: "rel' \<noteq> rel" if "rel' \<in> source_files tree" for rel'
      using that fresh source_files_subset by blast
    have target2: "\<forall>relative_path \<in> source_files tree.
           target_dir @ relative_path \<noteq> []
           \<and> fs2 (target_dir @ relative_path) \<noteq> Some FDir
           \<and> (\<forall>q. q \<noteq> [] \<and> strict_prefix q (target_dir @ relative_path) \<longrightarrow> \<not> is_file fs2 q)"
    proof (intro ballI conjI allI impI)
      fix rel' assume r: "rel' \<in> source_files tree"
      with target show "target_dir @ rel' \<noteq> []" by blast
    next
      fix rel' assume r: "rel' \<in> source_files tree"
      from nested_rel r have np: "\<not> strict_prefix rel rel'" "\<not> strict_prefix rel' rel" by auto
      from np(2) have "\<not> strict_prefix (target_dir @ rel') ?t"
        by (simp add: strict_prefix_same_append)
      then have "\<not> (target_dir @ rel' \<noteq> [] \<and> prefix (target_dir @ rel') (butlast ?t))"
        using prefix_butlast_strict by blast
      with target r other [OF r] show "fs2 (target_dir @ rel') \<noteq> Some FDir"
        by (auto simp: fs2_def)
    next
      fix rel' q assume r: "rel' \<in> source_files tree"
        and q: "q \<noteq> [] \<and> strict_prefix q (target_dir @ rel')"
      from nested_rel r have "\<not> strict_prefix ?t (target_dir @ rel')"
        by (simp add: strict_prefix_same_append)
      with q have "q \<noteq> ?t" by auto
      with target r q show "\<not> is_file fs2 q"
        by (auto simp: fs2_def is_file_def)
    qed
    note IH = Cons.IH [OF readable distinct nested target2]
    have kept: "fst (render_files py_str tree target_dir config fs2) ?t = fs2 ?t"
    proof (rule render_files_frame, clarify)
      fix rel' node' assume m: "(rel', node') \<in> set tree" and nd: "node' \<noteq> SrcDir"
      from readable m have "node' \<noteq> SrcUnreadable" by auto
      with nd obtain c where "node' = SrcFile c" by (cases node') auto
      with m have r: "rel' \<in> source_files tree" by (auto simp: source_files_def)
      from other [OF r] have "?t \<noteq> target_dir @ rel'" by simp
      moreover from nested_rel r have "\<not> strict_prefix ?t (target_dir @ rel')"
        by (simp add: strict_prefix_same_append)
      ultimately show "?t \<noteq> target_dir @ rel' \<and> \<not> strict_prefix ?t (target_dir @ rel')" ..
    qed
    have c1: "snd (render_files py_str (e # tree) target_dir config fs) = None"
      using IH run by simp
    have c2: "fst (render_files py_str (e # tree) target_dir config fs) (target_dir @ r)
                = Some (FFile (replace_placeholders py_str config c))"
      if "(r, SrcFile c) \<in> set (e # tree)" for r c
    proof (cases "(r, SrcFile c) \<in> set tree")
      case True
      with IH run show ?thesis by simp
    next
      case False
      with that have "r = rel" "c = content" by (auto simp: e SrcFile)
      with kept run show ?thesis by (simp add: fs2_def)
    qed
    have c3: "is_file (fst (render_files py_str (e # tree) target_dir config fs)) p = is_file fs p"
      if "p \<notin> (@) target_dir ` source_files (e # tree)" for p
    proof -
      from that have p: "p \<noteq> ?t" "p \<notin> (@) target_dir ` source_files tree"
        by (auto simp: files)
      from IH p(2) run
      have "is_file (fst (render_files py_str (e # tree) target_dir config fs)) p = is_file fs2 p"
        by simp
      also have "\<dots> = is_file fs p"
      proof (cases "p \<noteq> [] \<and> prefix p (butlast ?t)")
        case True
        then have "strict_prefix p ?t" using prefix_butlast_strict by blast
        with here(3) True have "\<not> is_file fs p" by blast
        with True p(1) show ?thesis by (simp add: fs2_def is_file_def)
      next
        case False
        with p(1) show ?thesis by (auto simp: fs2_def is_file_def)
      qed
      finally show ?thesis .
    qed
    from c1 c2 c3 show ?thesis by blast
  qed
qed

section \<open>Facts about the stylesheet\<close>

lemma custom_css_template_parts:
  "custom_css_template target_name theme_colors font_style base_css
     = css_header target_name theme_colors font_style @ base_css
         @ css_adjustments_comment (style font_style)"
  by (simp add: custom_css_template_def css_header_def css_adjustments_comment_def)

text \<open>
  A text \<open>B\<close> that does not occur in a tail \<open>T\<close>, and of which only the last character can
  begin \<open>T\<close>, occurs in \<open>P @ T\<close> exactly when it occurs in \<open>P\<close> followed by the first character
  of \<open>T\<close>.
\<close>

lemma sublist_before_tail:
  assumes tail: "T \<noteq> []"
    and none: "\<not> sublist B T"
    and joins: "filter (\<lambda>s. s \<noteq> [] \<and> prefix s T) (suffixes B) = [[hd T]]"
  shows "sublist B (P @ T) \<longleftrightarrow> sublist B (P @ [hd T])"
proof
  from tail have T: "T = hd T # tl T" by simp
  assume "sublist B (P @ [hd T])"
  moreover have "sublist (P @ [hd T]) (P @ T)"
    using sublist_append_rightI [of "P @ [hd T]" "tl T"] T by simp
  ultimately show "sublist B (P @ T)"
    by (rule sublist_order.order.trans)
next
  assume "sublist B (P @ T)"
  then consider "sublist B P" | "sublist B T"
    | B1 B2 where "B = B1 @ B2" "suffix B1 P" "prefix B2 T"
    unfolding sublist_append by blast
  then show "sublist B (P @ [hd T])"
  proof cases
    case 1
    then show ?thesis
      unfolding sublist_append by blast
  next
    case 2
    with none show ?thesis by simp
  next
    case 3
    show ?thesis
    proof (cases "B2 = []")
      case True
      with 3 have "suffix B P" by simp
      then have "sublist B P" by (rule suffix_imp_sublist)
      then show ?thesis unfolding sublist_append by blast
    next
      case False
      have "suffix B2 B" using 3(1) by (simp add: suffix_def)
      then have "B2 \<in> set (suffixes B)" by simp
      with False 3(3) have "B2 \<in> set (filter (\<lambda>s. s \<noteq> [] \<and> prefix s T) (suffixes B))"
        by simp
      then have "B2 = [hd T]" unfolding joins by simp
      with 3 have "suffix B (P @ [hd T])" by (simp add: suffix_def)
      then show ?thesis by (rule suffix_imp_sublist)
    qed
  qed
qed

text \<open>
  What a rounded font appends to the base stylesheet - the comment line and the rounded
  block - contains none of the other four blocks, and of each of them only the final
  newline can begin it.
\<close>

lemma rounded_tail_nonempty: "css_adjustments_comment ''rounded'' @ ROUNDED_BLOCK \<noteq> []"
  by (simp add: css_adjustments_comment_def)

lemma rounded_tail_hd: "hd (css_adjustments_comment ''rounded'' @ ROUNDED_BLOCK) = CHR ''\<newline>''"
  by (simp add: css_adjustments_comment_def)

lemma clean_not_in_rounded_tail:
  "\<not> sublist CLEAN_BLOCK (css_adjustments_comment ''rounded'' @ ROUNDED_BLOCK)"
  by code_simp

lemma traditional_not_in_rounded_tail:
  "\<not> sublist TRADITIONAL_BLOCK (css_adjustments_comment ''rounded'' @ ROUNDED_BLOCK)"
  by code_simp

lemma minimal_not_in_rounded_tail:
  "\<not> sublist MINIMAL_BLOCK (css_adjustments_comment ''rounded'' @ ROUNDED_BLOCK)"
  by code_simp

lemma code_not_in_rounded_tail:
  "\<not> sublist CODE_BLOCK (css_adjustments_comment ''rounded'' @ ROUNDED_BLOCK)"
  by code_simp

lemma clean_joins_rounded_tail:
  "filter (\<lambda>s. s \<noteq> [] \<and> prefix s (css_adjustments_comment ''rounded'' @ ROUNDED_BLOCK))
     (suffixes CLEAN_BLOCK) = [''\<newline>'']"
  by code_simp

lemma traditional_joins_rounded_tail:
  "filter (\<lambda>s. s \<noteq> [] \<and> prefix s (css_adjustments_comment ''rounded'' @ ROUNDED_BLOCK))
     (suffixes TRADITIONAL_BLOCK) = [''\<newline>'']"
  by code_simp

lemma minimal_joins_rounded_tail:
  "filter (\<lambda>s. s \<noteq> [] \<and> prefix s (css_adjustments_comment ''rounded'' @ ROUNDED_BLOCK))
     (suffixes MINIMAL_BLOCK) = [''\<newline>'']"
  by code_simp

lemma code_joins_rounded_tail:
  "filter (\<lambda>s. s \<noteq> [] \<and> prefix s (css_adjustments_comment ''rounded'' @ ROUNDED_BLOCK))
     (suffixes CODE_BLOCK) = [''\<newline>'']"
  by code_simp

lemma other_block_in_rounded_css:
  assumes "\<not> sublist B (css_adjustments_comment ''rounded'' @ ROUNDED_BLOCK)"
    and "filter (\<lambda>s. s \<noteq> [] \<and> prefix s (css_adjustments_comment ''rounded'' @ ROUNDED_BLOCK))
           (suffixes B) = [''\<newline>'']"
  shows "sublist B (header @ base_css @ css_adjustments_comment ''rounded'' @ ROUNDED_BLOCK)
           \<longleftrightarrow> sublist B (header @ base_css @ ''\<newline>'')"
proof -
  from assms(2)
  have "filter (\<lambda>s. s \<noteq> [] \<and> prefix s (css_adjustments_comment ''rounded'' @ ROUNDED_BLOCK))
          (suffixes B) = [[hd (css_adjustments_comment ''rounded'' @ ROUNDED_BLOCK)]]"
    by (simp only: rounded_tail_hd)
  from sublist_before_tail [OF rounded_tail_nonempty assms(1) this, of "header @ base_css"]
  show ?thesis
    by (simp only: rounded_tail_hd append_assoc)
qed

lemma generate_custom_css_written:
  assumes dir: "fs (target_dir @ [''src'', ''static'', ''css'', ''style.css'']) \<noteq> Some FDir"
    and above: "\<forall>q. q \<noteq> [] \<and> strict_prefix q (target_dir @ [''src'', ''static'', ''css'', ''style.css''])
                     \<longrightarrow> \<not> is_file fs q"
    and base: "base_css_file = Reads base_css
               \<or> base_css_file = Absent \<and> base_css = ''/* Default styles */\<newline>''"
  shows "\<exists>fs'.
           generate_custom_css target_dir theme_colors font_style base_css_file fs
             = (fs',
                LogInfo ''Generating custom CSS with ''
                  # (if base_css_file = Absent then [LogWarning ''Base CSS file not found at '']
                     else []),
                None)
           \<and> fs' (target_dir @ [''src'', ''static'', ''css'', ''style.css''])
               = Some (FFile (css_header (path_name target_dir) theme_colors font_style @ base_css
                              @ css_adjustments_comment (style font_style)
                              @ font_specific_styles (style font_style)))"
proof -
  let ?t = "target_dir @ [''src'', ''static'', ''css'', ''style.css'']"
  let ?css = "custom_css_template (path_name target_dir) theme_colors font_style base_css
                @ font_specific_styles (style font_style)"
  let ?warned = "if base_css_file = Absent then [LogWarning ''Base CSS file not found at ''] else []"
  have b: "butlast ?t = target_dir @ [''src'', ''static'', ''css'']"
    by (simp add: butlast_append)
  have "?t \<noteq> []"
    by simp
  from file_step [OF this dir above, of ?css] obtain fs1 fs2 where
    m: "mkdir_parents fs (target_dir @ [''src'', ''static'', ''css'']) = Inr fs1"
    and w: "write_file fs1 ?t ?css = Inr fs2"
    and fs2: "fs2 ?t = Some (FFile ?css)"
    unfolding b by auto
  from base have r: "read_base_css (butlast target_dir @ [''src'', ''static'', ''css'', ''style.css'']) base_css_file
                       = Inr (base_css, ?warned)"
    by (auto simp: read_base_css_def)
  have "generate_custom_css target_dir theme_colors font_style base_css_file fs
          = (fs2, LogInfo ''Generating custom CSS with '' # ?warned, None)"
    unfolding generate_custom_css_def Let_def m r by (simp add: w)
  moreover have "?css = css_header (path_name target_dir) theme_colors font_style @ base_css
                          @ css_adjustments_comment (style font_style)
                          @ font_specific_styles (style font_style)"
    by (simp add: custom_css_template_parts)
  ultimately show ?thesis
    using fs2 by auto
qed

section \<open>The system prompt: verified properties\<close>

text \<open>
  Claim C4. When the text read from the hand-off file does not contain the sentinel
  "Delete everything above this line", \<open>get_system_prompt\<close> returns that text with the
  surrounding whitespace stripped and nothing else changed: no placeholder is replaced,
  whatever the description is.
\<close>

theorem get_system_prompt_verbatim:
  assumes "\<not> sublist SENTINEL raw"
  shows "get_system_prompt True (Some raw) chatbot_description = py_strip raw"
proof -
  have "\<not> sublist SENTINEL (py_strip raw)"
    using assms sublist_order.order.trans [OF _ py_strip_sublist] by blast
  then show ?thesis
    by (simp add: get_system_prompt_def)
qed

theorem get_system_prompt_verbatim_witness:
  "\<not> sublist SENTINEL ''  Be a pirate about {{chatbot_description}}. ''
   \<and> get_system_prompt True (Some ''  Be a pirate about {{chatbot_description}}. '') ''cats''
       = ''Be a pirate about {{chatbot_description}}.''"
proof -
  have h: "\<not> sublist SENTINEL ''  Be a pirate about {{chatbot_description}}. ''"
    by code_simp
  have s: "py_strip ''  Be a pirate about {{chatbot_description}}. ''
             = ''Be a pirate about {{chatbot_description}}.''"
    by code_simp
  show ?thesis
    using h get_system_prompt_verbatim [OF h, of "''cats''"] s by simp
qed

text \<open>
  Claim C5, as amended. Let the trimmed hand-off text contain the sentinel, and let
  "## Default Prompt" be followed by "## Tips" with no further "## Default Prompt" between
  the two. Then \<open>get_system_prompt\<close> returns the trimmed text between the first
  "## Default Prompt" and the first "## Tips" after it, with every \<open>{{chatbot_description}}\<close>
  replaced by the description.
\<close>

theorem get_system_prompt_default_section:
  assumes "sublist SENTINEL (py_strip raw)"
    and "text_between DEFAULT_PROMPT_MARKER TIPS_MARKER (py_strip raw) = Some mid"
    and "\<not> sublist DEFAULT_PROMPT_MARKER mid"
  shows "get_system_prompt True (Some raw) chatbot_description
           = py_replace (py_strip mid) DESCRIPTION_TOKEN chatbot_description"
  using assms(1) text_between_markers_present [OF assms(2)]
    extract_default_section_between [OF assms(2,3)]
  by (simp add: get_system_prompt_def)

theorem get_system_prompt_default_section_witness:
  "sublist SENTINEL (py_strip ''# Setup\<newline>Delete everything above this line\<newline>## Default Prompt\<newline>\<newline>You help with {{chatbot_description}}.\<newline>\<newline>## Tips\<newline>Be kind.\<newline>'')
   \<and> text_between DEFAULT_PROMPT_MARKER TIPS_MARKER
         (py_strip ''# Setup\<newline>Delete everything above this line\<newline>## Default Prompt\<newline>\<newline>You help with {{chatbot_description}}.\<newline>\<newline>## Tips\<newline>Be kind.\<newline>'')
       = Some ''\<newline>\<newline>You help with {{chatbot_description}}.\<newline>\<newline>''
   \<and> \<not> sublist DEFAULT_PROMPT_MARKER ''\<newline>\<newline>You help with {{chatbot_description}}.\<newline>\<newline>''
   \<and> get_system_prompt True (Some ''# Setup\<newline>Delete everything above this line\<newline>## Default Prompt\<newline>\<newline>You help with {{chatbot_description}}.\<newline>\<newline>## Tips\<newline>Be kind.\<newline>'') ''cats''
       = ''You help with cats.''"
proof -
  let ?raw = "''# Setup\<newline>Delete everything above this line\<newline>## Default Prompt\<newline>\<newline>You help with {{chatbot_description}}.\<newline>\<newline>## Tips\<newline>Be kind.\<newline>''"
  let ?mid = "''\<newline>\<newline>You help with {{chatbot_description}}.\<newline>\<newline>''"
  have h1: "sublist SENTINEL (py_strip ?raw)"
    by code_simp
  have h2: "text_between DEFAULT_PROMPT_MARKER TIPS_MARKER (py_strip ?raw) = Some ?mid"
    by code_simp
  have h3: "\<not> sublist DEFAULT_PROMPT_MARKER ?mid"
    by code_simp
  have r: "py_replace (py_strip ?mid) DESCRIPTION_TOKEN ''cats'' = ''You help with cats.''"
    by code_simp
  show ?thesis
    using h1 h2 h3 get_system_prompt_default_section [OF h1 h2 h3, of "''cats''"] r by simp
qed

text \<open>
  The claim as it is written fails where "## Tips" comes before "## Default Prompt": each
  marker occurs once, the text between them is "T" and the sentinel line, and the function
  returns the text after "## Default Prompt" instead. (A second "## Default Prompt" before
  "## Tips" cuts the returned text short in the same way.)
\<close>

theorem get_system_prompt_markers_reversed_counterexample:
  "sublist SENTINEL ''## Tips\<newline>T\<newline>Delete everything above this line\<newline>## Default Prompt\<newline>P''
   \<and> sublist DEFAULT_PROMPT_MARKER ''## Tips\<newline>T\<newline>Delete everything above this line\<newline>## Default Prompt\<newline>P''
   \<and> sublist TIPS_MARKER ''## Tips\<newline>T\<newline>Delete everything above this line\<newline>## Default Prompt\<newline>P''
   \<and> text_between TIPS_MARKER DEFAULT_PROMPT_MARKER ''## Tips\<newline>T\<newline>Delete everything above this line\<newline>## Default Prompt\<newline>P''
       = Some ''\<newline>T\<newline>Delete everything above this line\<newline>''
   \<and> text_between DEFAULT_PROMPT_MARKER TIPS_MARKER ''## Tips\<newline>T\<newline>Delete everything above this line\<newline>## Default Prompt\<newline>P''
       = None
   \<and> get_system_prompt True (Some ''## Tips\<newline>T\<newline>Delete everything above this line\<newline>## Default Prompt\<newline>P'') ''cats''
       = ''P''"
  by code_simp

section \<open>The generation parameters: verified properties\<close>

text \<open>
  Claim C3. When the parameter text parses to a dictionary, \<open>get_llm_parameters\<close> returns
  a dictionary that is the parsed one with the missing default keys added: every key the
  user supplied keeps the parsed value (default key or not), every default key the user
  left out gets its built-in default, no key is dropped, and the keys of the result are
  the default keys together with the parsed keys.
\<close>

theorem get_llm_parameters_merge:
  assumes "parse_parameter_text json_loads content = Some (PDict parsed)"
  shows "\<exists>merged. get_llm_parameters json_loads True (Some content) = (PDict merged, [])
           \<and> map_of merged = map_of DEFAULT_LLM_PARAMS ++ map_of parsed
           \<and> (\<forall>k v. map_of parsed k = Some v \<longrightarrow> map_of merged k = Some v)
           \<and> (\<forall>k. map_of parsed k = None \<longrightarrow> map_of merged k = map_of DEFAULT_LLM_PARAMS k)
           \<and> set (map fst DEFAULT_LLM_PARAMS) \<union> set (map fst parsed) = set (map fst merged)"
proof -
  from fill_defaults_dict [of DEFAULT_LLM_PARAMS parsed] obtain merged where
    m: "fill_defaults DEFAULT_LLM_PARAMS (PDict parsed) = Inr (PDict merged)"
       "map_of merged = map_of DEFAULT_LLM_PARAMS ++ map_of parsed"
    by blast
  from m(1) assms have "get_llm_parameters json_loads True (Some content) = (PDict merged, [])"
    by (simp add: get_llm_parameters_def)
  moreover have "\<forall>k v. map_of parsed k = Some v \<longrightarrow> map_of merged k = Some v"
    by (simp add: m(2))
  moreover have "\<forall>k. map_of parsed k = None \<longrightarrow> map_of merged k = map_of DEFAULT_LLM_PARAMS k"
    by (simp add: m(2) map_add_def)
  moreover have "set (map fst DEFAULT_LLM_PARAMS) \<union> set (map fst parsed) = set (map fst merged)"
  proof -
    have "dom (map_of merged) = dom (map_of DEFAULT_LLM_PARAMS) \<union> dom (map_of parsed)"
      by (simp add: m(2) Un_commute)
    then show ?thesis
      by (simp add: dom_map_of_conv_image_fst)
  qed
  ultimately show ?thesis
    using m(2) by blast
qed

theorem get_llm_parameters_merge_witness:
  \<open>parse_parameter_text
      (\<lambda>s. if s = ''{"temperature": 0.2, "seed": 7}''
            then Some (PDict [(''temperature'', PFloat 2 (-1)), (''seed'', PInt 7)]) else None)
      ''Edit me.\<newline>```json\<newline>{"temperature": 0.2, "seed": 7}\<newline>```\<newline>''
     = Some (PDict [(''temperature'', PFloat 2 (-1)), (''seed'', PInt 7)])
   \<and> (\<exists>merged.
         get_llm_parameters
           (\<lambda>s. if s = ''{"temperature": 0.2, "seed": 7}''
                 then Some (PDict [(''temperature'', PFloat 2 (-1)), (''seed'', PInt 7)]) else None)
           True (Some ''Edit me.\<newline>```json\<newline>{"temperature": 0.2, "seed": 7}\<newline>```\<newline>'')
           = (PDict merged, [])
         \<and> map_of merged ''temperature'' = Some (PFloat 2 (-1))
         \<and> map_of merged ''seed'' = Some (PInt 7)
         \<and> map_of merged ''top_k'' = Some (PInt 40)
         \<and> map_of merged ''frequency_penalty'' = Some (PFloat 0 0))\<close>
proof -
  let ?loads = \<open>\<lambda>s. if s = ''{"temperature": 0.2, "seed": 7}''
            then Some (PDict [(''temperature'', PFloat 2 (-1)), (''seed'', PInt 7)]) else None\<close>
  let ?content = \<open>''Edit me.\<newline>```json\<newline>{"temperature": 0.2, "seed": 7}\<newline>```\<newline>''\<close>
  let ?parsed = "[(''temperature'', PFloat 2 (-1)), (''seed'', PInt 7)]"
  have h: "parse_parameter_text ?loads ?content = Some (PDict ?parsed)"
    by code_simp
  from get_llm_parameters_merge [OF h] obtain merged where
    r: "get_llm_parameters ?loads True (Some ?content) = (PDict merged, [])"
       "\<forall>k v. map_of ?parsed k = Some v \<longrightarrow> map_of merged k = Some v"
       "\<forall>k. map_of ?parsed k = None \<longrightarrow> map_of merged k = map_of DEFAULT_LLM_PARAMS k"
    by blast
  from r(2) have "map_of merged ''temperature'' = Some (PFloat 2 (-1))"
    by simp
  moreover from r(2) have "map_of merged ''seed'' = Some (PInt 7)"
    by simp
  moreover from r(3) have "map_of merged ''top_k'' = Some (PInt 40)"
    by (simp add: DEFAULT_LLM_PARAMS_def)
  moreover from r(3) have "map_of merged ''frequency_penalty'' = Some (PFloat 0 0)"
    by (simp add: DEFAULT_LLM_PARAMS_def)
  ultimately show ?thesis
    using h r(1) by blast
qed

text \<open>
  Claim C6. When neither the fenced block (if there is one) nor the whole text is valid
  JSON, \<open>get_llm_parameters\<close> raises nothing: it returns the built-in defaults unchanged,
  and the failure is logged (as an error when the template exists; when it does not, the
  file is never read and the missing template is logged as a warning).
\<close>

theorem get_llm_parameters_invalid_json:
  assumes "json_loads content = None"
    and "\<forall>json_str. search_json_block content = Some json_str \<longrightarrow> json_loads json_str = None"
  shows "get_llm_parameters json_loads template_exists (Some content)
           = (PDict DEFAULT_LLM_PARAMS,
              [if template_exists then LogError ''Error reading LLM parameters file''
               else LogWarning ''LLM parameters template not found, using default''])"
proof -
  from assms have "parse_parameter_text json_loads content = None"
    by (cases "search_json_block content") (simp_all add: parse_parameter_text_def)
  then show ?thesis
    by (simp add: get_llm_parameters_def)
qed

theorem get_llm_parameters_invalid_json_witness:
  \<open>(\<lambda>s. if s = ''{"top_k": 5}'' then Some (PDict [(''top_k'', PInt 5)]) else None)
      ''```json\<newline>{"top_k": 5,}\<newline>```'' = None
   \<and> search_json_block ''```json\<newline>{"top_k": 5,}\<newline>```'' = Some ''{"top_k": 5,}''
   \<and> (\<lambda>s. if s = ''{"top_k": 5}'' then Some (PDict [(''top_k'', PInt 5)]) else None)
         ''{"top_k": 5,}'' = None
   \<and> get_llm_parameters
         (\<lambda>s. if s = ''{"top_k": 5}'' then Some (PDict [(''top_k'', PInt 5)]) else None)
         True (Some ''```json\<newline>{"top_k": 5,}\<newline>```'')
       = (PDict DEFAULT_LLM_PARAMS, [LogError ''Error reading LLM parameters file''])\<close>
proof -
  let ?loads = \<open>\<lambda>s. if s = ''{"top_k": 5}'' then Some (PDict [(''top_k'', PInt 5)]) else None\<close>
  let ?content = \<open>''```json\<newline>{"top_k": 5,}\<newline>```''\<close>
  have h1: "?loads ?content = None"
    by simp
  have s: \<open>search_json_block ?content = Some ''{"top_k": 5,}''\<close>
    by code_simp
  have h2: "\<forall>json_str. search_json_block ?content = Some json_str \<longrightarrow> ?loads json_str = None"
    unfolding s by simp
  have h3: \<open>?loads ''{"top_k": 5,}'' = None\<close>
    by simp
  show ?thesis
    using h1 s h3 get_llm_parameters_invalid_json [of ?loads ?content True, OF h1 h2] by simp
qed

section \<open>Updating a generated configuration: verified properties\<close>

text \<open>
  Claim C10. For a loaded configuration whose \<open>parameters\<close> field is a dictionary, and a
  dictionary of updates, \<open>update_parameters\<close> returns the configuration with the same
  fields in the same order; every field but \<open>parameters\<close> (so \<open>system_prompt\<close> and
  \<open>metadata\<close>) is unchanged; in \<open>parameters\<close> each key of the updates has the updated
  value (added when it was absent) and every other key is as before.
\<close>

theorem update_parameters_frame:
  assumes "map_of config ''parameters'' = Some (PDict params)"
    and "distinct (map fst param_updates)"
  shows "\<exists>config' params'.
           update_parameters (PDict config) param_updates = Inr (PDict config')
           \<and> map_of config' ''parameters'' = Some (PDict params')
           \<and> (\<forall>field. field \<noteq> ''parameters'' \<longrightarrow> map_of config' field = map_of config field)
           \<and> map fst config' = map fst config
           \<and> (\<forall>k v. map_of param_updates k = Some v \<longrightarrow> map_of params' k = Some v)
           \<and> (\<forall>k. map_of param_updates k = None \<longrightarrow> map_of params' k = map_of params k)"
proof -
  from update_parameters_dict [OF assms(1), of param_updates] obtain config' params' where
    r: "update_parameters (PDict config) param_updates = Inr (PDict config')"
       "map_of config' = (map_of config)(''parameters'' \<mapsto> PDict params')"
       "map fst config' = map fst config"
       "map_of params' = map_of params ++ map_of (rev param_updates)"
    by blast
  from assms(2) have "map_of (rev param_updates) = map_of param_updates"
    by (rule map_of_rev_distinct)
  with r(4) have m: "map_of params' = map_of params ++ map_of param_updates"
    by simp
  have "map_of config' ''parameters'' = Some (PDict params')"
    by (simp add: r(2))
  moreover have "\<forall>field. field \<noteq> ''parameters'' \<longrightarrow> map_of config' field = map_of config field"
    by (simp add: r(2))
  moreover have "\<forall>k v. map_of param_updates k = Some v \<longrightarrow> map_of params' k = Some v"
    by (simp add: m)
  moreover have "\<forall>k. map_of param_updates k = None \<longrightarrow> map_of params' k = map_of params k"
    by (simp add: m map_add_def)
  ultimately show ?thesis
    using r(1) r(3) by blast
qed

theorem update_parameters_frame_witness:
  "map_of [(''system_prompt'', PStr ''hi''),
           (''parameters'', PDict [(''temperature'', PFloat 7 (-1)), (''top_k'', PInt 40)]),
           (''metadata'', PDict [(''version'', PStr ''1.0'')])] ''parameters''
     = Some (PDict [(''temperature'', PFloat 7 (-1)), (''top_k'', PInt 40)])
   \<and> distinct (map fst [(''temperature'', PFloat 8 (-1)), (''max_tokens'', PInt 2048)])
   \<and> (\<exists>config' params'.
         update_parameters
           (PDict [(''system_prompt'', PStr ''hi''),
                   (''parameters'', PDict [(''temperature'', PFloat 7 (-1)), (''top_k'', PInt 40)]),
                   (''metadata'', PDict [(''version'', PStr ''1.0'')])])
           [(''temperature'', PFloat 8 (-1)), (''max_tokens'', PInt 2048)] = Inr (PDict config')
         \<and> map_of config' ''parameters'' = Some (PDict params')
         \<and> map_of config' ''system_prompt'' = Some (PStr ''hi'')
         \<and> map_of config' ''metadata'' = Some (PDict [(''version'', PStr ''1.0'')])
         \<and> map_of params' ''temperature'' = Some (PFloat 8 (-1))
         \<and> map_of params' ''max_tokens'' = Some (PInt 2048)
         \<and> map_of params' ''top_k'' = Some (PInt 40))"
proof -
  let ?config = "[(''system_prompt'', PStr ''hi''),
                  (''parameters'', PDict [(''temperature'', PFloat 7 (-1)), (''top_k'', PInt 40)]),
                  (''metadata'', PDict [(''version'', PStr ''1.0'')])]"
  let ?params = "[(''temperature'', PFloat 7 (-1)), (''top_k'', PInt 40)]"
  let ?updates = "[(''temperature'', PFloat 8 (-1)), (''max_tokens'', PInt 2048)]"
  have h1: "map_of ?config ''parameters'' = Some (PDict ?params)"
    by simp
  have h2: "distinct (map fst ?updates)"
    by simp
  from update_parameters_frame [OF h1 h2] obtain config' params' where
    r: "update_parameters (PDict ?config) ?updates = Inr (PDict config')"
       "map_of config' ''parameters'' = Some (PDict params')"
       "\<forall>field. field \<noteq> ''parameters'' \<longrightarrow> map_of config' field = map_of ?config field"
       "\<forall>k v. map_of ?updates k = Some v \<longrightarrow> map_of params' k = Some v"
       "\<forall>k. map_of ?updates k = None \<longrightarrow> map_of params' k = map_of ?params k"
    by blast
  from r(3) have "map_of config' ''system_prompt'' = Some (PStr ''hi'')"
    by simp
  moreover from r(3) have "map_of config' ''metadata'' = Some (PDict [(''version'', PStr ''1.0'')])"
    by simp
  moreover from r(4) have "map_of params' ''temperature'' = Some (PFloat 8 (-1))"
    by simp
  moreover from r(4) have "map_of params' ''max_tokens'' = Some (PInt 2048)"
    by simp
  moreover from r(5) have "map_of params' ''top_k'' = Some (PInt 40)"
    by simp
  ultimately show ?thesis
    using h1 h2 r(1) r(2) by blast
qed

section \<open>Rendering the template tree: verified properties\<close>

text \<open>
  Claim C1, as amended. Take a source tree whose files can all be read, in which no path is
  enumerated twice and no file lies under another file, and a file system in which no
  target path is a directory and no ancestor of a target path is a file: the conditions
  under which no \<open>mkdir\<close>, read or write of the loop raises. Then, for every configuration,
  rendering returns normally, having logged its one \<open>info\<close> line. The files of the file
  system are those it had before together with the target paths of the source files, so
  the relative paths of the files under the target directory are those of the source
  files, beside the ones already there. Each written file is the source text after one
  \<open>replace\<close> per key, in configuration order.

  No token of a configured key is left in a written file when the configuration is
  well-formed, the source text is made of token-safe literal pieces and of tokens, and no
  value holds the token of its own key or of an earlier key.
\<close>

theorem render_tree:
  assumes readable: "list_all (\<lambda>(relative_path, node). node \<noteq> SrcUnreadable) tree"
    and paths: "distinct (map fst tree)"
    and nested: "\<forall>p \<in> source_files tree. \<forall>q \<in> source_files tree. \<not> strict_prefix p q"
    and target: "\<forall>relative_path \<in> source_files tree.
                   target_dir @ relative_path \<noteq> []
                   \<and> fs (target_dir @ relative_path) \<noteq> Some FDir
                   \<and> (\<forall>q. q \<noteq> [] \<and> strict_prefix q (target_dir @ relative_path)
                          \<longrightarrow> \<not> is_file fs q)"
  shows "\<exists>fs'.
           copy_and_update_template_files py_str tree target_dir config fs
             = (fs', [LogInfo ''Copying and updating template files''], None)
           \<and> {p. is_file fs' p} = {p. is_file fs p} \<union> (@) target_dir ` source_files tree
           \<and> {relative_path. is_file fs' (target_dir @ relative_path)}
               = {relative_path. is_file fs (target_dir @ relative_path)} \<union> source_files tree
           \<and> (\<forall>relative_path content. (relative_path, SrcFile content) \<in> set tree \<longrightarrow>
                 fs' (target_dir @ relative_path)
                   = Some (FFile (replace_placeholders py_str config content)))
           \<and> (\<forall>shape relative_path segs key.
                 well_formed_config py_str shape config
                 \<and> no_own_or_earlier_token shape [] config
                 \<and> (relative_path, SrcFile (template_text segs)) \<in> set tree
                 \<and> list_all well_formed_segment segs
                 \<and> key \<in> fst ` set config \<longrightarrow>
                 (\<exists>out. fs' (target_dir @ relative_path) = Some (FFile out)
                        \<and> \<not> sublist (placeholder key) out))"
proof -
  define fs' where "fs' = fst (render_files py_str tree target_dir config fs)"
  from readable have r: "\<forall>(relative_path, node) \<in> set tree. node \<noteq> SrcUnreadable"
    by (simp add: list_all_iff)
  from render_files_ok [OF r paths nested target, of py_str config]
  have ok: "snd (render_files py_str tree target_dir config fs) = None"
    and content: "\<And>relative_path content. (relative_path, SrcFile content) \<in> set tree \<Longrightarrow>
                    fs' (target_dir @ relative_path)
                      = Some (FFile (replace_placeholders py_str config content))"
    and others: "\<And>p. p \<notin> (@) target_dir ` source_files tree \<Longrightarrow> is_file fs' p = is_file fs p"
    unfolding fs'_def by blast+
  from ok have run: "copy_and_update_template_files py_str tree target_dir config fs
                       = (fs', [LogInfo ''Copying and updating template files''], None)"
    by (auto simp: copy_and_update_template_files_def fs'_def split: prod.splits)
  have written: "is_file fs' (target_dir @ relative_path)"
    if "relative_path \<in> source_files tree" for relative_path
  proof -
    from that obtain c where "(relative_path, SrcFile c) \<in> set tree"
      by (auto simp: source_files_def)
    from content [OF this] show ?thesis by (simp add: is_file_def)
  qed
  have files: "{p. is_file fs' p} = {p. is_file fs p} \<union> (@) target_dir ` source_files tree"
  proof (rule set_eqI)
    fix p
    show "p \<in> {p. is_file fs' p}
            \<longleftrightarrow> p \<in> {p. is_file fs p} \<union> (@) target_dir ` source_files tree"
    proof (cases "p \<in> (@) target_dir ` source_files tree")
      case True
      then obtain relative_path where "relative_path \<in> source_files tree"
        and "p = target_dir @ relative_path"
        by (rule imageE)
      with written [of relative_path] True show ?thesis by simp
    next
      case False
      with others [OF False] show ?thesis by simp
    qed
  qed
  have rel_files: "{relative_path. is_file fs' (target_dir @ relative_path)}
                     = {relative_path. is_file fs (target_dir @ relative_path)} \<union> source_files tree"
  proof (rule set_eqI)
    fix x
    have "target_dir @ x \<in> (@) target_dir ` source_files tree \<longleftrightarrow> x \<in> source_files tree"
      by auto
    then show "x \<in> {relative_path. is_file fs' (target_dir @ relative_path)}
            \<longleftrightarrow> x \<in> {relative_path. is_file fs (target_dir @ relative_path)} \<union> source_files tree"
      using written [of x] others [of "target_dir @ x"]
      by (cases "x \<in> source_files tree") simp_all
  qed
  have clean: "\<exists>out. fs' (target_dir @ relative_path) = Some (FFile out)
                     \<and> \<not> sublist (placeholder key) out"
    if "well_formed_config py_str shape config" "no_own_or_earlier_token shape [] config"
      "(relative_path, SrcFile (template_text segs)) \<in> set tree"
      "list_all well_formed_segment segs" "key \<in> fst ` set config"
    for shape relative_path segs key
  proof (intro exI conjI)
    show "fs' (target_dir @ relative_path)
            = Some (FFile (replace_placeholders py_str config (template_text segs)))"
      by (rule content [OF that(3)])
    show "\<not> sublist (placeholder key) (replace_placeholders py_str config (template_text segs))"
      by (rule rendered_without_configured_token [OF that(1) that(2) that(4) that(5)])
  qed
  show ?thesis
  proof (rule exI [of _ fs'], intro conjI allI impI)
    show "copy_and_update_template_files py_str tree target_dir config fs
            = (fs', [LogInfo ''Copying and updating template files''], None)"
      by (rule run)
    show "{p. is_file fs' p} = {p. is_file fs p} \<union> (@) target_dir ` source_files tree"
      by (rule files)
    show "{relative_path. is_file fs' (target_dir @ relative_path)}
            = {relative_path. is_file fs (target_dir @ relative_path)} \<union> source_files tree"
      by (rule rel_files)
    show "fs' (target_dir @ relative_path)
            = Some (FFile (replace_placeholders py_str config content))"
      if "(relative_path, SrcFile content) \<in> set tree" for relative_path content
      by (rule content [OF that])
    show "\<exists>out. fs' (target_dir @ relative_path) = Some (FFile out)
                \<and> \<not> sublist (placeholder key) out"
      if "well_formed_config py_str shape config
          \<and> no_own_or_earlier_token shape [] config
          \<and> (relative_path, SrcFile (template_text segs)) \<in> set tree
          \<and> list_all well_formed_segment segs
          \<and> key \<in> fst ` set config"
      for shape relative_path segs key
      using that clean [of shape relative_path segs key] by simp
  qed
qed

theorem render_tree_witness:
  "\<exists>fs'.
     copy_and_update_template_files (\<lambda>v. v)
       [([''src''], SrcDir),
        ([''README.md''], SrcFile ''# {{{ chatbot_name }}} uses {{{ model_name }}}''),
        ([''src'', ''llm.py''], SrcFile ''model_name = {{ model_name }}'')]
       [''out''] [(''chatbot_name'', ''BioBot''), (''model_name'', ''llama3:8b'')] Map.empty
       = (fs', [LogInfo ''Copying and updating template files''], None)
     \<and> {p. is_file fs' p} = {[''out'', ''README.md''], [''out'', ''src'', ''llm.py'']}
     \<and> fs' [''out'', ''README.md''] = Some (FFile ''# BioBot uses llama3:8b'')
     \<and> fs' [''out'', ''src'', ''llm.py''] = Some (FFile ''model_name = {{ model_name }}'')
     \<and> \<not> sublist (placeholder ''chatbot_name'') ''# BioBot uses llama3:8b''
     \<and> \<not> sublist (placeholder ''model_name'') ''# BioBot uses llama3:8b''"
proof -
  let ?segs = "[Literal ''# '', Token ''chatbot_name'', Literal '' uses '', Token ''model_name'']"
  let ?tree = "[([''src''], SrcDir),
                ([''README.md''], SrcFile ''# {{{ chatbot_name }}} uses {{{ model_name }}}''),
                ([''src'', ''llm.py''], SrcFile ''model_name = {{ model_name }}'')]"
  let ?config = "[(''chatbot_name'', ''BioBot''), (''model_name'', ''llama3:8b'')]"
  let ?shape = "\<lambda>v. [Literal v]"
  have files: "source_files ?tree = {[''README.md''], [''src'', ''llm.py'']}"
    by (auto simp: source_files_simps)
  have h1: "list_all (\<lambda>(relative_path, node). node \<noteq> SrcUnreadable) ?tree"
    by simp
  have h2: "distinct (map fst ?tree)"
    by simp
  have h3: "\<forall>p \<in> source_files ?tree. \<forall>q \<in> source_files ?tree. \<not> strict_prefix p q"
    unfolding files by simp
  have h4: "\<forall>relative_path \<in> source_files ?tree.
              [''out''] @ relative_path \<noteq> []
              \<and> Map.empty ([''out''] @ relative_path) \<noteq> Some FDir
              \<and> (\<forall>q. q \<noteq> [] \<and> strict_prefix q ([''out''] @ relative_path)
                     \<longrightarrow> \<not> is_file Map.empty q)"
    by (simp add: is_file_def)
  have tmpl: "template_text ?segs = ''# {{{ chatbot_name }}} uses {{{ model_name }}}''"
    by code_simp
  have readme: "replace_placeholders (\<lambda>v. v) ?config
                  ''# {{{ chatbot_name }}} uses {{{ model_name }}}'' = ''# BioBot uses llama3:8b''"
    by code_simp
  have llm: "replace_placeholders (\<lambda>v. v) ?config ''model_name = {{ model_name }}''
               = ''model_name = {{ model_name }}''"
    by code_simp
  have wfc: "well_formed_config (\<lambda>v. v) ?shape ?config"
    by code_simp
  have own: "no_own_or_earlier_token ?shape [] ?config"
    by simp
  have wfs: "list_all well_formed_segment ?segs"
    by code_simp
  from render_tree [OF h1 h2 h3 h4, of "\<lambda>v. v" ?config] obtain fs' where
    run: "copy_and_update_template_files (\<lambda>v. v) ?tree [''out''] ?config Map.empty
            = (fs', [LogInfo ''Copying and updating template files''], None)"
    and fset: "{p. is_file fs' p} = {p. is_file Map.empty p} \<union> (@) [''out''] ` source_files ?tree"
    and content: "\<forall>relative_path content. (relative_path, SrcFile content) \<in> set ?tree \<longrightarrow>
                    fs' ([''out''] @ relative_path)
                      = Some (FFile (replace_placeholders (\<lambda>v. v) ?config content))"
    and clean: "\<forall>shape relative_path segs key.
                 well_formed_config (\<lambda>v. v) shape ?config
                 \<and> no_own_or_earlier_token shape [] ?config
                 \<and> (relative_path, SrcFile (template_text segs)) \<in> set ?tree
                 \<and> list_all well_formed_segment segs
                 \<and> key \<in> fst ` set ?config \<longrightarrow>
                 (\<exists>out. fs' ([''out''] @ relative_path) = Some (FFile out)
                        \<and> \<not> sublist (placeholder key) out)"
    by blast
  from fset have c1: "{p. is_file fs' p} = {[''out'', ''README.md''], [''out'', ''src'', ''llm.py'']}"
    unfolding files by (simp add: is_file_def)
  from content have "fs' ([''out''] @ [''README.md''])
                       = Some (FFile (replace_placeholders (\<lambda>v. v) ?config
                                        ''# {{{ chatbot_name }}} uses {{{ model_name }}}''))"
    by simp
  then have c2: "fs' [''out'', ''README.md''] = Some (FFile ''# BioBot uses llama3:8b'')"
    unfolding readme by simp
  from content have "fs' ([''out''] @ [''src'', ''llm.py''])
                       = Some (FFile (replace_placeholders (\<lambda>v. v) ?config
                                        ''model_name = {{ model_name }}''))"
    by simp
  then have c3: "fs' [''out'', ''src'', ''llm.py''] = Some (FFile ''model_name = {{ model_name }}'')"
    unfolding llm by simp
  have m: "([''README.md''], SrcFile (template_text ?segs)) \<in> set ?tree"
    unfolding tmpl by simp
  have "\<exists>out. fs' ([''out''] @ [''README.md'']) = Some (FFile out)
              \<and> \<not> sublist (placeholder key) out"
    if "key \<in> fst ` set ?config" for key
    using clean [rule_format, of ?shape "[''README.md'']" ?segs key] wfc own m wfs that
    by simp
  then have "\<not> sublist (placeholder key) ''# BioBot uses llama3:8b''"
    if "key \<in> fst ` set ?config" for key
    using c2 that by auto
  then have c4: "\<not> sublist (placeholder ''chatbot_name'') ''# BioBot uses llama3:8b''"
    and c5: "\<not> sublist (placeholder ''model_name'') ''# BioBot uses llama3:8b''"
    by simp_all
  from run c1 c2 c3 c4 c5 show ?thesis
    by blast
qed

text \<open>
  The claim as it is written fails when a value holds the token of an earlier key: the
  description below holds the token of \<open>chatbot_name\<close>, whose \<open>replace\<close> has already run, so
  the token stays in the output file.
\<close>

theorem render_leaves_token_counterexample:
  "snd (copy_and_update_template_files (\<lambda>v. v)
          [([''README.md''], SrcFile ''# {{{ chatbot_name }}}: {{{ chatbot_description }}}'')]
          [''out'']
          [(''chatbot_name'', ''Bot''),
           (''chatbot_description'', ''all about {{{ chatbot_name }}}'')]
          Map.empty)
     = ([LogInfo ''Copying and updating template files''], None)
   \<and> fst (copy_and_update_template_files (\<lambda>v. v)
          [([''README.md''], SrcFile ''# {{{ chatbot_name }}}: {{{ chatbot_description }}}'')]
          [''out'']
          [(''chatbot_name'', ''Bot''),
           (''chatbot_description'', ''all about {{{ chatbot_name }}}'')]
          Map.empty) [''out'', ''README.md'']
     = Some (FFile ''# Bot: all about {{{ chatbot_name }}}'')
   \<and> sublist (placeholder ''chatbot_name'') ''# Bot: all about {{{ chatbot_name }}}''"
  by code_simp




text \<open>
  Claim C7. The code departs from the claim: there is no \<open>try\<close> around the read and no
  warning. On a tree whose first file cannot be read, rendering raises at that file: the
  log holds the \<open>info\<close> line of the start and no warning, and the readable file enumerated
  after it is not written.
\<close>

theorem render_unreadable_file_counterexample:
  "snd (copy_and_update_template_files (\<lambda>v. v)
          [([''a.txt''], SrcUnreadable), ([''b.txt''], SrcFile ''hello'')]
          [''out''] [(''chatbot_name'', ''Bot'')] Map.empty)
     = ([LogInfo ''Copying and updating template files''], Some (OSError [''a.txt'']))
   \<and> fst (copy_and_update_template_files (\<lambda>v. v)
            [([''a.txt''], SrcUnreadable), ([''b.txt''], SrcFile ''hello'')]
            [''out''] [(''chatbot_name'', ''Bot'')] Map.empty) [''out'', ''b.txt'']
     = None"
  by code_simp

section \<open>The target directory: verified properties\<close>

text \<open>
  Claim C8. When the target directory already exists and the answer to the overwrite
  question is not "y" (in either case), \<open>create_directory_structure\<close> exits with status 0
  and the file system is exactly as before: nothing is removed and nothing is created; the
  run ends there, and none of the later steps of the generation is executed.
\<close>

theorem declined_overwrite_changes_nothing:
  assumes "fs (base_path @ [chatbot_name]) \<noteq> None"
    and "py_lower answer \<noteq> ''y''"
  shows "create_directory_structure base_path chatbot_name answer fs = (fs, SysExit 0)
         \<and> generate base_path chatbot_name answer remaining_steps fs = (fs, Exited 0)"
  using assms by (simp add: create_directory_structure_def generate_def)

theorem declined_overwrite_changes_nothing_witness:
  "create_directory_structure [''home'', ''work''] ''BioBot'' ''N''
     [[''home'', ''work'', ''BioBot''] \<mapsto> FDir,
      [''home'', ''work'', ''BioBot'', ''notes.txt''] \<mapsto> FFile ''keep me'']
   = ([[''home'', ''work'', ''BioBot''] \<mapsto> FDir,
       [''home'', ''work'', ''BioBot'', ''notes.txt''] \<mapsto> FFile ''keep me''], SysExit 0)
   \<and> generate [''home'', ''work''] ''BioBot'' ''N''
         (\<lambda>chatbot_dir fs. (fs(chatbot_dir @ [''README.md''] \<mapsto> FFile ''new''), None))
         [[''home'', ''work'', ''BioBot''] \<mapsto> FDir,
          [''home'', ''work'', ''BioBot'', ''notes.txt''] \<mapsto> FFile ''keep me'']
       = ([[''home'', ''work'', ''BioBot''] \<mapsto> FDir,
           [''home'', ''work'', ''BioBot'', ''notes.txt''] \<mapsto> FFile ''keep me''], Exited 0)"
proof -
  let ?fs = "[[''home'', ''work'', ''BioBot''] \<mapsto> FDir,
              [''home'', ''work'', ''BioBot'', ''notes.txt''] \<mapsto> FFile ''keep me'']"
  have h1: "?fs ([''home'', ''work''] @ [''BioBot'']) \<noteq> None"
    by simp
  have h2: "py_lower ''N'' \<noteq> ''y''"
    by code_simp
  show ?thesis
    by (rule declined_overwrite_changes_nothing
          [where fs = ?fs and base_path = "[''home'', ''work'']" and chatbot_name = "''BioBot''"
             and answer = "''N''", OF h1 h2])
qed

section \<open>The stylesheet: verified properties\<close>

text \<open>
  Claim C9, as amended. When the directory of the stylesheet can be made and the
  stylesheet written (its path is not a directory and no ancestor of it is a file), and
  the base stylesheet is read or is absent (then the base text is the default comment, and
  a warning is logged), generating returns normally for every style tag and writes the
  stylesheet.

  For the tag "rounded" the text written is the header, the base stylesheet, the comment
  line naming the tag and the rounded block; each of the other four blocks occurs in it
  exactly when it occurs in the header and the base stylesheet followed by one newline,
  that is, only where the base stylesheet or a value of the header brings it. For a tag
  that is none of the five known ones the text written is the header, the base stylesheet
  and the comment line naming the tag, with no block after it.
\<close>

theorem generate_custom_css_style_block:
  assumes dir: "fs (target_dir @ [''src'', ''static'', ''css'', ''style.css'']) \<noteq> Some FDir"
    and above: "\<forall>q. q \<noteq> [] \<and> strict_prefix q (target_dir @ [''src'', ''static'', ''css'', ''style.css''])
                     \<longrightarrow> \<not> is_file fs q"
    and base: "base_css_file = Reads base_css
               \<or> base_css_file = Absent \<and> base_css = ''/* Default styles */\<newline>''"
  shows "\<exists>fs' css.
           generate_custom_css target_dir theme_colors font_style base_css_file fs
             = (fs',
                LogInfo ''Generating custom CSS with ''
                  # (if base_css_file = Absent then [LogWarning ''Base CSS file not found at '']
                     else []),
                None)
           \<and> fs' (target_dir @ [''src'', ''static'', ''css'', ''style.css'']) = Some (FFile css)
           \<and> (style font_style = ''rounded'' \<longrightarrow>
                css = css_header (path_name target_dir) theme_colors font_style @ base_css
                        @ ''\<newline>\<newline>/* Custom rounded style adjustments */\<newline>''
                        @ (''\<newline>.message {\<newline>    border-radius: 18px;\<newline>}\<newline>'' @
                           ''button {\<newline>    border-radius: 24px;\<newline>}\<newline>'' @
                           ''.chat-form input {\<newline>    border-radius: 24px;\<newline>}\<newline>'')
                \<and> (sublist (''\<newline>.message {\<newline>    border-radius: 4px;\<newline>}\<newline>'' @
                              ''.input-container {\<newline>    border-radius: 4px;\<newline>}\<newline>'') css
                     \<longleftrightarrow> sublist (''\<newline>.message {\<newline>    border-radius: 4px;\<newline>}\<newline>'' @
                                   ''.input-container {\<newline>    border-radius: 4px;\<newline>}\<newline>'')
                           (css_header (path_name target_dir) theme_colors font_style @ base_css @ ''\<newline>''))
                \<and> (sublist (''\<newline>.message {\<newline>    border-radius: 0;\<newline>'' @
                              ''    border-bottom: 1px solid rgba(0,0,0,0.1);\<newline>}\<newline>'' @
                              ''h1, h2, h3 {\<newline>    font-weight: normal;\<newline>'' @
                              ''    letter-spacing: -0.5px;\<newline>}\<newline>'') css
                     \<longleftrightarrow> sublist (''\<newline>.message {\<newline>    border-radius: 0;\<newline>'' @
                                   ''    border-bottom: 1px solid rgba(0,0,0,0.1);\<newline>}\<newline>'' @
                                   ''h1, h2, h3 {\<newline>    font-weight: normal;\<newline>'' @
                                   ''    letter-spacing: -0.5px;\<newline>}\<newline>'')
                           (css_header (path_name target_dir) theme_colors font_style @ base_css @ ''\<newline>''))
                \<and> (sublist (''\<newline>* {\<newline>    transition: all 0.2s ease;\<newline>}\<newline>'' @
                              ''.message {\<newline>    border: none;\<newline>'' @
                              ''    border-bottom: 1px solid rgba(0,0,0,0.05);\<newline>'' @
                              ''    margin-bottom: 8px;\<newline>}\<newline>button {\<newline>'' @
                              ''    border-radius: 3px;\<newline>}\<newline>'') css
                     \<longleftrightarrow> sublist (''\<newline>* {\<newline>    transition: all 0.2s ease;\<newline>}\<newline>'' @
                                   ''.message {\<newline>    border: none;\<newline>'' @
                                   ''    border-bottom: 1px solid rgba(0,0,0,0.05);\<newline>'' @
                                   ''    margin-bottom: 8px;\<newline>}\<newline>button {\<newline>'' @
                                   ''    border-radius: 3px;\<newline>}\<newline>'')
                           (css_header (path_name target_dir) theme_colors font_style @ base_css @ ''\<newline>''))
                \<and> (sublist (''\<newline>pre, code {\<newline>    font-family: var(--font-family);\<newline>'' @
                              ''}\<newline>.message {\<newline>    border-radius: 0;\<newline>'' @
                              ''    border-left: 2px solid var(--primary-color);\<newline>}\<newline>'' @
                              ''.user-message {\<newline>    border-left: 2px solid #606060;\<newline>'' @
                              ''}\<newline>'') css
                     \<longleftrightarrow> sublist (''\<newline>pre, code {\<newline>    font-family: var(--font-family);\<newline>'' @
                                   ''}\<newline>.message {\<newline>    border-radius: 0;\<newline>'' @
                                   ''    border-left: 2px solid var(--primary-color);\<newline>}\<newline>'' @
                                   ''.user-message {\<newline>    border-left: 2px solid #606060;\<newline>'' @
                                   ''}\<newline>'')
                           (css_header (path_name target_dir) theme_colors font_style @ base_css @ ''\<newline>'')))
           \<and> (style font_style \<notin> {''clean'', ''traditional'', ''minimal'', ''code'', ''rounded''} \<longrightarrow>
                css = css_header (path_name target_dir) theme_colors font_style @ base_css
                        @ ''\<newline>\<newline>/* Custom '' @ style font_style
                        @ '' style adjustments */\<newline>'')"
proof -
  let ?header = "css_header (path_name target_dir) theme_colors font_style"
  let ?css = "?header @ base_css @ css_adjustments_comment (style font_style)
                @ font_specific_styles (style font_style)"
  from generate_custom_css_written [OF dir above base, of theme_colors font_style]
  obtain fs' where
    run: "generate_custom_css target_dir theme_colors font_style base_css_file fs
            = (fs',
               LogInfo ''Generating custom CSS with ''
                 # (if base_css_file = Absent then [LogWarning ''Base CSS file not found at '']
                    else []),
               None)"
    and written: "fs' (target_dir @ [''src'', ''static'', ''css'', ''style.css'']) = Some (FFile ?css)"
    by blast
  have rounded: "?css = ?header @ base_css @ css_adjustments_comment ''rounded'' @ ROUNDED_BLOCK"
    if "style font_style = ''rounded''"
    using that by (simp add: font_specific_styles_def)
  have unknown: "?css = ?header @ base_css @ css_adjustments_comment (style font_style)"
    if "style font_style \<notin> {''clean'', ''traditional'', ''minimal'', ''code'', ''rounded''}"
    using that by (simp add: font_specific_styles_def)
  note blocks =
    other_block_in_rounded_css [OF clean_not_in_rounded_tail clean_joins_rounded_tail,
      of ?header base_css]
    other_block_in_rounded_css [OF traditional_not_in_rounded_tail traditional_joins_rounded_tail,
      of ?header base_css]
    other_block_in_rounded_css [OF minimal_not_in_rounded_tail minimal_joins_rounded_tail,
      of ?header base_css]
    other_block_in_rounded_css [OF code_not_in_rounded_tail code_joins_rounded_tail,
      of ?header base_css]
  have r: "?css = ?header @ base_css
                    @ ''\<newline>\<newline>/* Custom rounded style adjustments */\<newline>''
                    @ (''\<newline>.message {\<newline>    border-radius: 18px;\<newline>}\<newline>'' @
                       ''button {\<newline>    border-radius: 24px;\<newline>}\<newline>'' @
                       ''.chat-form input {\<newline>    border-radius: 24px;\<newline>}\<newline>'')
                \<and> (sublist (''\<newline>.message {\<newline>    border-radius: 4px;\<newline>}\<newline>'' @
                              ''.input-container {\<newline>    border-radius: 4px;\<newline>}\<newline>'') ?css
                     \<longleftrightarrow> sublist (''\<newline>.message {\<newline>    border-radius: 4px;\<newline>}\<newline>'' @
                                   ''.input-container {\<newline>    border-radius: 4px;\<newline>}\<newline>'')
                           (?header @ base_css @ ''\<newline>''))
                \<and> (sublist (''\<newline>.message {\<newline>    border-radius: 0;\<newline>'' @
                              ''    border-bottom: 1px solid rgba(0,0,0,0.1);\<newline>}\<newline>'' @
                              ''h1, h2, h3 {\<newline>    font-weight: normal;\<newline>'' @
                              ''    letter-spacing: -0.5px;\<newline>}\<newline>'') ?css
                     \<longleftrightarrow> sublist (''\<newline>.message {\<newline>    border-radius: 0;\<newline>'' @
                                   ''    border-bottom: 1px solid rgba(0,0,0,0.1);\<newline>}\<newline>'' @
                                   ''h1, h2, h3 {\<newline>    font-weight: normal;\<newline>'' @
                                   ''    letter-spacing: -0.5px;\<newline>}\<newline>'')
                           (?header @ base_css @ ''\<newline>''))
                \<and> (sublist (''\<newline>* {\<newline>    transition: all 0.2s ease;\<newline>}\<newline>'' @
                              ''.message {\<newline>    border: none;\<newline>'' @
                              ''    border-bottom: 1px solid rgba(0,0,0,0.05);\<newline>'' @
                              ''    margin-bottom: 8px;\<newline>}\<newline>button {\<newline>'' @
                              ''    border-radius: 3px;\<newline>}\<newline>'') ?css
                     \<longleftrightarrow> sublist (''\<newline>* {\<newline>    transition: all 0.2s ease;\<newline>}\<newline>'' @
                                   ''.message {\<newline>    border: none;\<newline>'' @
                                   ''    border-bottom: 1px solid rgba(0,0,0,0.05);\<newline>'' @
                                   ''    margin-bottom: 8px;\<newline>}\<newline>button {\<newline>'' @
                                   ''    border-radius: 3px;\<newline>}\<newline>'')
                           (?header @ base_css @ ''\<newline>''))
                \<and> (sublist (''\<newline>pre, code {\<newline>    font-family: var(--font-family);\<newline>'' @
                              ''}\<newline>.message {\<newline>    border-radius: 0;\<newline>'' @
                              ''    border-left: 2px solid var(--primary-color);\<newline>}\<newline>'' @
                              ''.user-message {\<newline>    border-left: 2px solid #606060;\<newline>'' @
                              ''}\<newline>'') ?css
                     \<longleftrightarrow> sublist (''\<newline>pre, code {\<newline>    font-family: var(--font-family);\<newline>'' @
                                   ''}\<newline>.message {\<newline>    border-radius: 0;\<newline>'' @
                                   ''    border-left: 2px solid var(--primary-color);\<newline>}\<newline>'' @
                                   ''.user-message {\<newline>    border-left: 2px solid #606060;\<newline>'' @
                                   ''}\<newline>'')
                           (?header @ base_css @ ''\<newline>''))"
    if "style font_style = ''rounded''"
    unfolding rounded [OF that]
    using blocks
    by (simp add: css_adjustments_comment_def ROUNDED_BLOCK_def CLEAN_BLOCK_def
          TRADITIONAL_BLOCK_def MINIMAL_BLOCK_def CODE_BLOCK_def)
  have u: "?css = ?header @ base_css
                    @ ''\<newline>\<newline>/* Custom '' @ style font_style
                    @ '' style adjustments */\<newline>''"
    if "style font_style \<notin> {''clean'', ''traditional'', ''minimal'', ''code'', ''rounded''}"
    unfolding unknown [OF that] by (simp add: css_adjustments_comment_def)
  show ?thesis
    apply (rule exI [of _ fs'], rule exI [of _ ?css])
    apply (rule conjI, rule run)
    apply (rule conjI, rule written)
    apply (rule conjI, rule impI, erule r)
    apply (rule impI, erule u)
    done
qed

theorem generate_custom_css_style_block_witness:
  \<open>(\<exists>fs'.
      generate_custom_css [''work'', ''BioBot'']
        \<lparr>theme_name = None, primary = ''#22C55E'', bg = ''#F0FDF4'', text = ''#14532D''\<rparr>
        \<lparr>name = ''Friendly'', font_family = ''Quicksand, sans-serif'', style = ''rounded''\<rparr>
        (Reads ''body { margin: 0; }\<newline>'') Map.empty
        = (fs', [LogInfo ''Generating custom CSS with ''], None)
      \<and> fs' [''work'', ''BioBot'', ''src'', ''static'', ''css'', ''style.css'']
          = Some (FFile
              (''/* \<newline>'' @
               '' * Custom CSS for BioBot chatbot\<newline>'' @
               '' * Theme: Custom\<newline>'' @
               '' * Font: Friendly\<newline>'' @
               '' */\<newline>'' @
               ''\<newline>'' @
               '':root {\<newline>'' @
               ''    --primary-color: #22C55E;\<newline>'' @
               ''    --background-color: #F0FDF4;\<newline>'' @
               ''    --text-color: #14532D;\<newline>'' @
               ''    --font-family: Quicksand, sans-serif;\<newline>'' @
               ''}\<newline>'' @
               ''\<newline>'' @
               ''body {\<newline>'' @
               ''    font-family: var(--font-family);\<newline>'' @
               ''    background-color: var(--background-color);\<newline>'' @
               ''    color: var(--text-color);\<newline>'' @
               ''}\<newline>'' @
               ''\<newline>'' @
               ''.header {\<newline>'' @
               ''    background-color: var(--primary-color);\<newline>'' @
               ''}\<newline>'' @
               ''\<newline>'' @
               ''.primary-button, button[type="submit"] {\<newline>'' @
               ''    background-color: var(--primary-color);\<newline>'' @
               ''}\<newline>'' @
               ''\<newline>'' @
               ''.bot-message {\<newline>'' @
               ''    border-left: 3px solid var(--primary-color);\<newline>'' @
               ''}\<newline>'' @
               ''\<newline>'' @
               ''.bot-info {\<newline>'' @
               ''    margin-top: 10px;\<newline>'' @
               ''    color: #586e75;\<newline>'' @
               ''    font-style: italic;\<newline>'' @
               ''}\<newline>'' @
               ''\<newline>'' @
               ''.customization-tip {\<newline>'' @
               ''    background-color: rgba(var(--primary-color-rgb, 14, 165, 233), 0.1);\<newline>'' @
               ''    border-radius: 6px;\<newline>'' @
               ''    padding: 12px 16px;\<newline>'' @
               ''    margin: 20px 0;\<newline>'' @
               ''    font-size: 0.9rem;\<newline>'' @
               ''}\<newline>'' @
               ''\<newline>'' @
               ''.customization-tip code {\<newline>'' @
               ''    background-color: rgba(0,0,0,0.05);\<newline>'' @
               ''    padding: 2px 4px;\<newline>'' @
               ''    border-radius: 3px;\<newline>'' @
               ''}\<newline>'' @
               ''\<newline>'' @
               ''/* Base styles */\<newline>'' @
               ''body { margin: 0; }\<newline>'' @
               ''\<newline>'' @
               ''\<newline>'' @
               ''/* Custom rounded style adjustments */\<newline>'' @
               ''\<newline>'' @
               ''.message {\<newline>'' @
               ''    border-radius: 18px;\<newline>'' @
               ''}\<newline>'' @
               ''button {\<newline>'' @
               ''    border-radius: 24px;\<newline>'' @
               ''}\<newline>'' @
               ''.chat-form input {\<newline>'' @
               ''    border-radius: 24px;\<newline>'' @
               ''}\<newline>'')))
   \<and> (\<exists>fs'.
        generate_custom_css [''work'', ''BioBot'']
          \<lparr>theme_name = None, primary = ''#22C55E'', bg = ''#F0FDF4'', text = ''#14532D''\<rparr>
          \<lparr>name = ''Friendly'', font_family = ''Quicksand, sans-serif'', style = ''bubbly''\<rparr>
          Absent Map.empty
          = (fs',
             [LogInfo ''Generating custom CSS with '', LogWarning ''Base CSS file not found at ''],
             None)
        \<and> fs' [''work'', ''BioBot'', ''src'', ''static'', ''css'', ''style.css'']
            = Some (FFile
                (''/* \<newline>'' @
                 '' * Custom CSS for BioBot chatbot\<newline>'' @
                 '' * Theme: Custom\<newline>'' @
                 '' * Font: Friendly\<newline>'' @
                 '' */\<newline>'' @
                 ''\<newline>'' @
                 '':root {\<newline>'' @
                 ''    --primary-color: #22C55E;\<newline>'' @
                 ''    --background-color: #F0FDF4;\<newline>'' @
                 ''    --text-color: #14532D;\<newline>'' @
                 ''    --font-family: Quicksand, sans-serif;\<newline>'' @
                 ''}\<newline>'' @
                 ''\<newline>'' @
                 ''body {\<newline>'' @
                 ''    font-family: var(--font-family);\<newline>'' @
                 ''    background-color: var(--background-color);\<newline>'' @
                 ''    color: var(--text-color);\<newline>'' @
                 ''}\<newline>'' @
                 ''\<newline>'' @
                 ''.header {\<newline>'' @
                 ''    background-color: var(--primary-color);\<newline>'' @
                 ''}\<newline>'' @
                 ''\<newline>'' @
                 ''.primary-button, button[type="submit"] {\<newline>'' @
                 ''    background-color: var(--primary-color);\<newline>'' @
                 ''}\<newline>'' @
                 ''\<newline>'' @
                 ''.bot-message {\<newline>'' @
                 ''    border-left: 3px solid var(--primary-color);\<newline>'' @
                 ''}\<newline>'' @
                 ''\<newline>'' @
                 ''.bot-info {\<newline>'' @
                 ''    margin-top: 10px;\<newline>'' @
                 ''    color: #586e75;\<newline>'' @
                 ''    font-style: italic;\<newline>'' @
                 ''}\<newline>'' @
                 ''\<newline>'' @
                 ''.customization-tip {\<newline>'' @
                 ''    background-color: rgba(var(--primary-color-rgb, 14, 165, 233), 0.1);\<newline>'' @
                 ''    border-radius: 6px;\<newline>'' @
                 ''    padding: 12px 16px;\<newline>'' @
                 ''    margin: 20px 0;\<newline>'' @
                 ''    font-size: 0.9rem;\<newline>'' @
                 ''}\<newline>'' @
                 ''\<newline>'' @
                 ''.customization-tip code {\<newline>'' @
                 ''    background-color: rgba(0,0,0,0.05);\<newline>'' @
                 ''    padding: 2px 4px;\<newline>'' @
                 ''    border-radius: 3px;\<newline>'' @
                 ''}\<newline>'' @
                 ''\<newline>'' @
                 ''/* Base styles */\<newline>'' @
                 ''/* Default styles */\<newline>'' @
                 ''\<newline>'' @
                 ''\<newline>'' @
                 ''/* Custom bubbly style adjustments */\<newline>'')))\<close>
proof -
  let ?theme = "\<lparr>theme_name = None, primary = ''#22C55E'', bg = ''#F0FDF4'', text = ''#14532D''\<rparr>"
  let ?rounded = "\<lparr>name = ''Friendly'', font_family = ''Quicksand, sans-serif'', style = ''rounded''\<rparr>"
  let ?bubbly = "\<lparr>name = ''Friendly'', font_family = ''Quicksand, sans-serif'', style = ''bubbly''\<rparr>"
  have dir: "Map.empty ([''work'', ''BioBot''] @ [''src'', ''static'', ''css'', ''style.css'']) \<noteq> Some FDir"
    by simp
  have above: "\<forall>q. q \<noteq> [] \<and> strict_prefix q ([''work'', ''BioBot''] @ [''src'', ''static'', ''css'', ''style.css''])
                     \<longrightarrow> \<not> is_file Map.empty q"
    by (simp add: is_file_def)
  have base1: "Reads ''body { margin: 0; }\<newline>'' = Reads ''body { margin: 0; }\<newline>''
               \<or> Reads ''body { margin: 0; }\<newline>'' = Absent \<and> ''body { margin: 0; }\<newline>'' = ''/* Default styles */\<newline>''"
    by simp
  have base2: "Absent = Reads ''/* Default styles */\<newline>''
               \<or> Absent = Absent \<and> ''/* Default styles */\<newline>'' = ''/* Default styles */\<newline>''"
    by simp
  have text1:
    \<open>css_header (path_name [''work'', ''BioBot'']) ?theme ?rounded @ ''body { margin: 0; }\<newline>''
       @ ''\<newline>\<newline>/* Custom rounded style adjustments */\<newline>''
       @ (''\<newline>.message {\<newline>    border-radius: 18px;\<newline>}\<newline>'' @
          ''button {\<newline>    border-radius: 24px;\<newline>}\<newline>'' @
          ''.chat-form input {\<newline>    border-radius: 24px;\<newline>}\<newline>'')
     = (''/* \<newline>'' @
        '' * Custom CSS for BioBot chatbot\<newline>'' @
        '' * Theme: Custom\<newline>'' @
        '' * Font: Friendly\<newline>'' @
        '' */\<newline>'' @
        ''\<newline>'' @
        '':root {\<newline>'' @
        ''    --primary-color: #22C55E;\<newline>'' @
        ''    --background-color: #F0FDF4;\<newline>'' @
        ''    --text-color: #14532D;\<newline>'' @
        ''    --font-family: Quicksand, sans-serif;\<newline>'' @
        ''}\<newline>'' @
        ''\<newline>'' @
        ''body {\<newline>'' @
        ''    font-family: var(--font-family);\<newline>'' @
        ''    background-color: var(--background-color);\<newline>'' @
        ''    color: var(--text-color);\<newline>'' @
        ''}\<newline>'' @
        ''\<newline>'' @
        ''.header {\<newline>'' @
        ''    background-color: var(--primary-color);\<newline>'' @
        ''}\<newline>'' @
        ''\<newline>'' @
        ''.primary-button, button[type="submit"] {\<newline>'' @
        ''    background-color: var(--primary-color);\<newline>'' @
        ''}\<newline>'' @
        ''\<newline>'' @
        ''.bot-message {\<newline>'' @
        ''    border-left: 3px solid var(--primary-color);\<newline>'' @
        ''}\<newline>'' @
        ''\<newline>'' @
        ''.bot-info {\<newline>'' @
        ''    margin-top: 10px;\<newline>'' @
        ''    color: #586e75;\<newline>'' @
        ''    font-style: italic;\<newline>'' @
        ''}\<newline>'' @
        ''\<newline>'' @
        ''.customization-tip {\<newline>'' @
        ''    background-color: rgba(var(--primary-color-rgb, 14, 165, 233), 0.1);\<newline>'' @
        ''    border-radius: 6px;\<newline>'' @
        ''    padding: 12px 16px;\<newline>'' @
        ''    margin: 20px 0;\<newline>'' @
        ''    font-size: 0.9rem;\<newline>'' @
        ''}\<newline>'' @
        ''\<newline>'' @
        ''.customization-tip code {\<newline>'' @
        ''    background-color: rgba(0,0,0,0.05);\<newline>'' @
        ''    padding: 2px 4px;\<newline>'' @
        ''    border-radius: 3px;\<newline>'' @
        ''}\<newline>'' @
        ''\<newline>'' @
        ''/* Base styles */\<newline>'' @
        ''body { margin: 0; }\<newline>'' @
        ''\<newline>'' @
        ''\<newline>'' @
        ''/* Custom rounded style adjustments */\<newline>'' @
        ''\<newline>'' @
        ''.message {\<newline>'' @
        ''    border-radius: 18px;\<newline>'' @
        ''}\<newline>'' @
        ''button {\<newline>'' @
        ''    border-radius: 24px;\<newline>'' @
        ''}\<newline>'' @
        ''.chat-form input {\<newline>'' @
        ''    border-radius: 24px;\<newline>'' @
        ''}\<newline>'')\<close>
    by (simp add: css_header_def path_name_def theme_display_name_def)
  have text2:
    \<open>css_header (path_name [''work'', ''BioBot'']) ?theme ?bubbly @ ''/* Default styles */\<newline>''
       @ ''\<newline>\<newline>/* Custom '' @ style ?bubbly @ '' style adjustments */\<newline>''
     = (''/* \<newline>'' @
        '' * Custom CSS for BioBot chatbot\<newline>'' @
        '' * Theme: Custom\<newline>'' @
        '' * Font: Friendly\<newline>'' @
        '' */\<newline>'' @
        ''\<newline>'' @
        '':root {\<newline>'' @
        ''    --primary-color: #22C55E;\<newline>'' @
        ''    --background-color: #F0FDF4;\<newline>'' @
        ''    --text-color: #14532D;\<newline>'' @
        ''    --font-family: Quicksand, sans-serif;\<newline>'' @
        ''}\<newline>'' @
        ''\<newline>'' @
        ''body {\<newline>'' @
        ''    font-family: var(--font-family);\<newline>'' @
        ''    background-color: var(--background-color);\<newline>'' @
        ''    color: var(--text-color);\<newline>'' @
        ''}\<newline>'' @
        ''\<newline>'' @
        ''.header {\<newline>'' @
        ''    background-color: var(--primary-color);\<newline>'' @
        ''}\<newline>'' @
        ''\<newline>'' @
        ''.primary-button, button[type="submit"] {\<newline>'' @
        ''    background-color: var(--primary-color);\<newline>'' @
        ''}\<newline>'' @
        ''\<newline>'' @
        ''.bot-message {\<newline>'' @
        ''    border-left: 3px solid var(--primary-color);\<newline>'' @
        ''}\<newline>'' @
        ''\<newline>'' @
        ''.bot-info {\<newline>'' @
        ''    margin-top: 10px;\<newline>'' @
        ''    color: #586e75;\<newline>'' @
        ''    font-style: italic;\<newline>'' @
        ''}\<newline>'' @
        ''\<newline>'' @
        ''.customization-tip {\<newline>'' @
        ''    background-color: rgba(var(--primary-color-rgb, 14, 165, 233), 0.1);\<newline>'' @
        ''    border-radius: 6px;\<newline>'' @
        ''    padding: 12px 16px;\<newline>'' @
        ''    margin: 20px 0;\<newline>'' @
        ''    font-size: 0.9rem;\<newline>'' @
        ''}\<newline>'' @
        ''\<newline>'' @
        ''.customization-tip code {\<newline>'' @
        ''    background-color: rgba(0,0,0,0.05);\<newline>'' @
        ''    padding: 2px 4px;\<newline>'' @
        ''    border-radius: 3px;\<newline>'' @
        ''}\<newline>'' @
        ''\<newline>'' @
        ''/* Base styles */\<newline>'' @
        ''/* Default styles */\<newline>'' @
        ''\<newline>'' @
        ''\<newline>'' @
        ''/* Custom bubbly style adjustments */\<newline>'')\<close>
    by (simp add: css_header_def path_name_def theme_display_name_def)
  from generate_custom_css_style_block [OF dir above base1, of ?theme ?rounded]
  obtain fs1 css1 where
    run1: "generate_custom_css [''work'', ''BioBot''] ?theme ?rounded (Reads ''body { margin: 0; }\<newline>'') Map.empty
             = (fs1, [LogInfo ''Generating custom CSS with ''], None)"
    and written1: "fs1 [''work'', ''BioBot'', ''src'', ''static'', ''css'', ''style.css''] = Some (FFile css1)"
    and css1: "css1 = css_header (path_name [''work'', ''BioBot'']) ?theme ?rounded @ ''body { margin: 0; }\<newline>''
                 @ ''\<newline>\<newline>/* Custom rounded style adjustments */\<newline>''
                 @ (''\<newline>.message {\<newline>    border-radius: 18px;\<newline>}\<newline>'' @
                    ''button {\<newline>    border-radius: 24px;\<newline>}\<newline>'' @
                    ''.chat-form input {\<newline>    border-radius: 24px;\<newline>}\<newline>'')"
    by auto
  from generate_custom_css_style_block [OF dir above base2, of ?theme ?bubbly]
  obtain fs2 css2 where
    run2: "generate_custom_css [''work'', ''BioBot''] ?theme ?bubbly Absent Map.empty
             = (fs2,
                [LogInfo ''Generating custom CSS with '', LogWarning ''Base CSS file not found at ''],
                None)"
    and written2: "fs2 [''work'', ''BioBot'', ''src'', ''static'', ''css'', ''style.css''] = Some (FFile css2)"
    and css2: "css2 = css_header (path_name [''work'', ''BioBot'']) ?theme ?bubbly @ ''/* Default styles */\<newline>''
                 @ ''\<newline>\<newline>/* Custom '' @ style ?bubbly @ '' style adjustments */\<newline>''"
    by auto
  from written1 have w1: \<open>fs1 [''work'', ''BioBot'', ''src'', ''static'', ''css'', ''style.css''] = Some (FFile
              (''/* \<newline>'' @
               '' * Custom CSS for BioBot chatbot\<newline>'' @
               '' * Theme: Custom\<newline>'' @
               '' * Font: Friendly\<newline>'' @
               '' */\<newline>'' @
               ''\<newline>'' @
               '':root {\<newline>'' @
               ''    --primary-color: #22C55E;\<newline>'' @
               ''    --background-color: #F0FDF4;\<newline>'' @
               ''    --text-color: #14532D;\<newline>'' @
               ''    --font-family: Quicksand, sans-serif;\<newline>'' @
               ''}\<newline>'' @
               ''\<newline>'' @
               ''body {\<newline>'' @
               ''    font-family: var(--font-family);\<newline>'' @
               ''    background-color: var(--background-color);\<newline>'' @
               ''    color: var(--text-color);\<newline>'' @
               ''}\<newline>'' @
               ''\<newline>'' @
               ''.header {\<newline>'' @
               ''    background-color: var(--primary-color);\<newline>'' @
               ''}\<newline>'' @
               ''\<newline>'' @
               ''.primary-button, button[type="submit"] {\<newline>'' @
               ''    background-color: var(--primary-color);\<newline>'' @
               ''}\<newline>'' @
               ''\<newline>'' @
               ''.bot-message {\<newline>'' @
               ''    border-left: 3px solid var(--primary-color);\<newline>'' @
               ''}\<newline>'' @
               ''\<newline>'' @
               ''.bot-info {\<newline>'' @
               ''    margin-top: 10px;\<newline>'' @
               ''    color: #586e75;\<newline>'' @
               ''    font-style: italic;\<newline>'' @
               ''}\<newline>'' @
               ''\<newline>'' @
               ''.customization-tip {\<newline>'' @
               ''    background-color: rgba(var(--primary-color-rgb, 14, 165, 233), 0.1);\<newline>'' @
               ''    border-radius: 6px;\<newline>'' @
               ''    padding: 12px 16px;\<newline>'' @
               ''    margin: 20px 0;\<newline>'' @
               ''    font-size: 0.9rem;\<newline>'' @
               ''}\<newline>'' @
               ''\<newline>'' @
               ''.customization-tip code {\<newline>'' @
               ''    background-color: rgba(0,0,0,0.05);\<newline>'' @
               ''    padding: 2px 4px;\<newline>'' @
               ''    border-radius: 3px;\<newline>'' @
               ''}\<newline>'' @
               ''\<newline>'' @
               ''/* Base styles */\<newline>'' @
               ''body { margin: 0; }\<newline>'' @
               ''\<newline>'' @
               ''\<newline>'' @
               ''/* Custom rounded style adjustments */\<newline>'' @
               ''\<newline>'' @
               ''.message {\<newline>'' @
               ''    border-radius: 18px;\<newline>'' @
               ''}\<newline>'' @
               ''button {\<newline>'' @
               ''    border-radius: 24px;\<newline>'' @
               ''}\<newline>'' @
               ''.chat-form input {\<newline>'' @
               ''    border-radius: 24px;\<newline>'' @
               ''}\<newline>''))\<close>
    unfolding css1 text1 .
  from written2 have w2: \<open>fs2 [''work'', ''BioBot'', ''src'', ''static'', ''css'', ''style.css''] = Some (FFile
              (''/* \<newline>'' @
               '' * Custom CSS for BioBot chatbot\<newline>'' @
               '' * Theme: Custom\<newline>'' @
               '' * Font: Friendly\<newline>'' @
               '' */\<newline>'' @
               ''\<newline>'' @
               '':root {\<newline>'' @
               ''    --primary-color: #22C55E;\<newline>'' @
               ''    --background-color: #F0FDF4;\<newline>'' @
               ''    --text-color: #14532D;\<newline>'' @
               ''    --font-family: Quicksand, sans-serif;\<newline>'' @
               ''}\<newline>'' @
               ''\<newline>'' @
               ''body {\<newline>'' @
               ''    font-family: var(--font-family);\<newline>'' @
               ''    background-color: var(--background-color);\<newline>'' @
               ''    color: var(--text-color);\<newline>'' @
               ''}\<newline>'' @
               ''\<newline>'' @
               ''.header {\<newline>'' @
               ''    background-color: var(--primary-color);\<newline>'' @
               ''}\<newline>'' @
               ''\<newline>'' @
               ''.primary-button, button[type="submit"] {\<newline>'' @
               ''    background-color: var(--primary-color);\<newline>'' @
               ''}\<newline>'' @
               ''\<newline>'' @
               ''.bot-message {\<newline>'' @
               ''    border-left: 3px solid var(--primary-color);\<newline>'' @
               ''}\<newline>'' @
               ''\<newline>'' @
               ''.bot-info {\<newline>'' @
               ''    margin-top: 10px;\<newline>'' @
               ''    color: #586e75;\<newline>'' @
               ''    font-style: italic;\<newline>'' @
               ''}\<newline>'' @
               ''\<newline>'' @
               ''.customization-tip {\<newline>'' @
               ''    background-color: rgba(var(--primary-color-rgb, 14, 165, 233), 0.1);\<newline>'' @
               ''    border-radius: 6px;\<newline>'' @
               ''    padding: 12px 16px;\<newline>'' @
               ''    margin: 20px 0;\<newline>'' @
               ''    font-size: 0.9rem;\<newline>'' @
               ''}\<newline>'' @
               ''\<newline>'' @
               ''.customization-tip code {\<newline>'' @
               ''    background-color: rgba(0,0,0,0.05);\<newline>'' @
               ''    padding: 2px 4px;\<newline>'' @
               ''    border-radius: 3px;\<newline>'' @
               ''}\<newline>'' @
               ''\<newline>'' @
               ''/* Base styles */\<newline>'' @
               ''/* Default styles */\<newline>'' @
               ''\<newline>'' @
               ''\<newline>'' @
               ''/* Custom bubbly style adjustments */\<newline>''))\<close>
    unfolding css2 text2 .
  show ?thesis
    apply (rule conjI)
     apply (rule exI [of _ fs1], rule conjI, rule run1, rule w1)
    apply (rule exI [of _ fs2], rule conjI, rule run2, rule w2)
    done
qed

text \<open>
  The claim as it is written fails when the base stylesheet holds the block of another
  tag: with the clean block as base stylesheet, the stylesheet of a rounded font contains
  the clean block.
\<close>

theorem generate_custom_css_base_block_counterexample:
  \<open>snd (generate_custom_css [''work'', ''BioBot'']
          \<lparr>theme_name = None, primary = ''#22C55E'', bg = ''#F0FDF4'', text = ''#14532D''\<rparr>
          \<lparr>name = ''Friendly'', font_family = ''Quicksand, sans-serif'', style = ''rounded''\<rparr>
          (Reads (''\<newline>'' @
                  ''.message {\<newline>'' @
                  ''    border-radius: 4px;\<newline>'' @
                  ''}\<newline>'' @
                  ''.input-container {\<newline>'' @
                  ''    border-radius: 4px;\<newline>'' @
                  ''}\<newline>''))
          Map.empty)
     = ([LogInfo ''Generating custom CSS with ''], None)
   \<and> fst (generate_custom_css [''work'', ''BioBot'']
          \<lparr>theme_name = None, primary = ''#22C55E'', bg = ''#F0FDF4'', text = ''#14532D''\<rparr>
          \<lparr>name = ''Friendly'', font_family = ''Quicksand, sans-serif'', style = ''rounded''\<rparr>
          (Reads (''\<newline>'' @
                  ''.message {\<newline>'' @
                  ''    border-radius: 4px;\<newline>'' @
                  ''}\<newline>'' @
                  ''.input-container {\<newline>'' @
                  ''    border-radius: 4px;\<newline>'' @
                  ''}\<newline>''))
          Map.empty) [''work'', ''BioBot'', ''src'', ''static'', ''css'', ''style.css'']
     = Some (FFile
         (''/* \<newline>'' @
          '' * Custom CSS for BioBot chatbot\<newline>'' @
          '' * Theme: Custom\<newline>'' @
          '' * Font: Friendly\<newline>'' @
          '' */\<newline>'' @
          ''\<newline>'' @
          '':root {\<newline>'' @
          ''    --primary-color: #22C55E;\<newline>'' @
          ''    --background-color: #F0FDF4;\<newline>'' @
          ''    --text-color: #14532D;\<newline>'' @
          ''    --font-family: Quicksand, sans-serif;\<newline>'' @
          ''}\<newline>'' @
          ''\<newline>'' @
          ''body {\<newline>'' @
          ''    font-family: var(--font-family);\<newline>'' @
          ''    background-color: var(--background-color);\<newline>'' @
          ''    color: var(--text-color);\<newline>'' @
          ''}\<newline>'' @
          ''\<newline>'' @
          ''.header {\<newline>'' @
          ''    background-color: var(--primary-color);\<newline>'' @
          ''}\<newline>'' @
          ''\<newline>'' @
          ''.primary-button, button[type="submit"] {\<newline>'' @
          ''    background-color: var(--primary-color);\<newline>'' @
          ''}\<newline>'' @
          ''\<newline>'' @
          ''.bot-message {\<newline>'' @
          ''    border-left: 3px solid var(--primary-color);\<newline>'' @
          ''}\<newline>'' @
          ''\<newline>'' @
          ''.bot-info {\<newline>'' @
          ''    margin-top: 10px;\<newline>'' @
          ''    color: #586e75;\<newline>'' @
          ''    font-style: italic;\<newline>'' @
          ''}\<newline>'' @
          ''\<newline>'' @
          ''.customization-tip {\<newline>'' @
          ''    background-color: rgba(var(--primary-color-rgb, 14, 165, 233), 0.1);\<newline>'' @
          ''    border-radius: 6px;\<newline>'' @
          ''    padding: 12px 16px;\<newline>'' @
          ''    margin: 20px 0;\<newline>'' @
          ''    font-size: 0.9rem;\<newline>'' @
          ''}\<newline>'' @
          ''\<newline>'' @
          ''.customization-tip code {\<newline>'' @
          ''    background-color: rgba(0,0,0,0.05);\<newline>'' @
          ''    padding: 2px 4px;\<newline>'' @
          ''    border-radius: 3px;\<newline>'' @
          ''}\<newline>'' @
          ''\<newline>'' @
          ''/* Base styles */\<newline>'' @
          ''\<newline>'' @
          ''.message {\<newline>'' @
          ''    border-radius: 4px;\<newline>'' @
          ''}\<newline>'' @
          ''.input-container {\<newline>'' @
          ''    border-radius: 4px;\<newline>'' @
          ''}\<newline>'' @
          ''\<newline>'' @
          ''\<newline>'' @
          ''/* Custom rounded style adjustments */\<newline>'' @
          ''\<newline>'' @
          ''.message {\<newline>'' @
          ''    border-radius: 18px;\<newline>'' @
          ''}\<newline>'' @
          ''button {\<newline>'' @
          ''    border-radius: 24px;\<newline>'' @
          ''}\<newline>'' @
          ''.chat-form input {\<newline>'' @
          ''    border-radius: 24px;\<newline>'' @
          ''}\<newline>''))
   \<and> sublist (''\<newline>'' @
             ''.message {\<newline>'' @
             ''    border-radius: 4px;\<newline>'' @
             ''}\<newline>'' @
             ''.input-container {\<newline>'' @
             ''    border-radius: 4px;\<newline>'' @
             ''}\<newline>'')
         (''/* \<newline>'' @
          '' * Custom CSS for BioBot chatbot\<newline>'' @
          '' * Theme: Custom\<newline>'' @
          '' * Font: Friendly\<newline>'' @
          '' */\<newline>'' @
          ''\<newline>'' @
          '':root {\<newline>'' @
          ''    --primary-color: #22C55E;\<newline>'' @
          ''    --background-color: #F0FDF4;\<newline>'' @
          ''    --text-color: #14532D;\<newline>'' @
          ''    --font-family: Quicksand, sans-serif;\<newline>'' @
          ''}\<newline>'' @
          ''\<newline>'' @
          ''body {\<newline>'' @
          ''    font-family: var(--font-family);\<newline>'' @
          ''    background-color: var(--background-color);\<newline>'' @
          ''    color: var(--text-color);\<newline>'' @
          ''}\<newline>'' @
          ''\<newline>'' @
          ''.header {\<newline>'' @
          ''    background-color: var(--primary-color);\<newline>'' @
          ''}\<newline>'' @
          ''\<newline>'' @
          ''.primary-button, button[type="submit"] {\<newline>'' @
          ''    background-color: var(--primary-color);\<newline>'' @
          ''}\<newline>'' @
          ''\<newline>'' @
          ''.bot-message {\<newline>'' @
          ''    border-left: 3px solid var(--primary-color);\<newline>'' @
          ''}\<newline>'' @
          ''\<newline>'' @
          ''.bot-info {\<newline>'' @
          ''    margin-top: 10px;\<newline>'' @
          ''    color: #586e75;\<newline>'' @
          ''    font-style: italic;\<newline>'' @
          ''}\<newline>'' @
          ''\<newline>'' @
          ''.customization-tip {\<newline>'' @
          ''    background-color: rgba(var(--primary-color-rgb, 14, 165, 233), 0.1);\<newline>'' @
          ''    border-radius: 6px;\<newline>'' @
          ''    padding: 12px 16px;\<newline>'' @
          ''    margin: 20px 0;\<newline>'' @
          ''    font-size: 0.9rem;\<newline>'' @
          ''}\<newline>'' @
          ''\<newline>'' @
          ''.customization-tip code {\<newline>'' @
          ''    background-color: rgba(0,0,0,0.05);\<newline>'' @
          ''    padding: 2px 4px;\<newline>'' @
          ''    border-radius: 3px;\<newline>'' @
          ''}\<newline>'' @
          ''\<newline>'' @
          ''/* Base styles */\<newline>'' @
          ''\<newline>'' @
          ''.message {\<newline>'' @
          ''    border-radius: 4px;\<newline>'' @
          ''}\<newline>'' @
          ''.input-container {\<newline>'' @
          ''    border-radius: 4px;\<newline>'' @
          ''}\<newline>'' @
          ''\<newline>'' @
          ''\<newline>'' @
          ''/* Custom rounded style adjustments */\<newline>'' @
          ''\<newline>'' @
          ''.message {\<newline>'' @
          ''    border-radius: 18px;\<newline>'' @
          ''}\<newline>'' @
          ''button {\<newline>'' @
          ''    border-radius: 24px;\<newline>'' @
          ''}\<newline>'' @
          ''.chat-form input {\<newline>'' @
          ''    border-radius: 24px;\<newline>'' @
          ''}\<newline>'')\<close>
  by code_simp

end
